theory Spec2Isabelle
  imports Complex_Main "HOL-Library.AList"
begin

section \<open>Data model of the sprite builder (src/src/App.jsx)\<close>

text \<open>
  The objects of \<^verbatim>\<open>App.jsx\<close> are plain JavaScript objects. The fields every item and
  every sprite share (\<^verbatim>\<open>id\<close>, \<^verbatim>\<open>name\<close>, \<^verbatim>\<open>w\<close>, \<^verbatim>\<open>h\<close>) form the base record; a build
  item adds its \<^verbatim>\<open>tag\<close>, a sprite adds its position. The field \<^verbatim>\<open>id\<close> is called
  \<open>ident\<close> here because \<open>id\<close> is the identity function of HOL. The pixel handles of a
  build item (\<^verbatim>\<open>imgElement\<close>, \<^verbatim>\<open>originalSrc\<close>) are only read by \<^verbatim>\<open>drawComposite\<close> and
  are left out.

  Numbers: an identifier is a finite double (\<^verbatim>\<open>Date.now() + Math.random()\<close>), hence a
  rational. The sizes of build items are pixel dimensions of images, modelled as
  \<open>int\<close>: JavaScript arithmetic on integers below \<open>2^53\<close> is exact. The coordinate type
  of a sprite is a parameter, because the decoder of the URL hash can produce values
  that are not integers.
\<close>

record 'n frame =
  ident :: rat
  name :: string
  w :: 'n
  h :: 'n

record 'n sprite = "'n frame" +
  x :: 'n
  y :: 'n

text \<open>\<^verbatim>\<open>tag\<close> is \<open>None\<close> when the property is absent (\<^verbatim>\<open>undefined\<close>).\<close>

record item = "int frame" +
  tag :: "string option"

text \<open>\<^verbatim>\<open>{ ...item, x: currentX, y: currentY }\<close>: the item itself with a position added.\<close>

type_synonym positioned = "item \<times> int \<times> int"

record dims =
  width :: int
  height :: int

text \<open>
  The part of the React state that \<^verbatim>\<open>repackSprites\<close> and \<^verbatim>\<open>generateCode\<close> touch:
  \<^verbatim>\<open>sprites\<close> (set by \<^verbatim>\<open>setSprites\<close>) and \<^verbatim>\<open>imageDimensions\<close> (set by
  \<^verbatim>\<open>setImageDimensions\<close>).
\<close>

record session =
  sprites :: "int sprite list"
  imageDimensions :: dims

section \<open>Layout engine: \<^verbatim>\<open>repackSprites\<close> (App.jsx, lines 162-213)\<close>

text \<open>The mutable locals of the closure passed to \<^verbatim>\<open>items.map\<close>.\<close>

record cursor =
  currentX :: int
  currentY :: int
  rowHeight :: int
  maxCanvasWidth :: int

definition padding :: int where
  "padding = 2"

definition cursor0 :: cursor where
  "cursor0 = \<lparr>currentX = 0, currentY = 0, rowHeight = 0, maxCanvasWidth = 0\<rparr>"

text \<open>\<^verbatim>\<open>items.reduce((acc, item) => acc + (item.w * item.h), 0)\<close>\<close>

definition totalArea :: "item list \<Rightarrow> int" where
  "totalArea items = foldl (\<lambda>acc item. acc + w item * h item) 0 items"

text \<open>
  \<^verbatim>\<open>Math.min(4096, Math.max(512, Math.sqrt(totalArea) * 1.5))\<close>. \<^verbatim>\<open>Math.sqrt\<close> of a negative
  number is \<^verbatim>\<open>NaN\<close>, and \<^verbatim>\<open>Math.max\<close> and \<^verbatim>\<open>Math.min\<close> propagate it: \<open>None\<close> stands for
  \<^verbatim>\<open>NaN\<close>. Otherwise the value is the real number. The only use of the result is the
  comparison with the integer \<^verbatim>\<open>currentX + item.w\<close>, and it matters only between 512
  and 4096; there the double that JavaScript computes and the real number lie on the
  same side of every integer, since \<open>9 * totalArea / 4\<close> is the square of an integer or
  differs from every such square by at least a quarter.
\<close>

definition maxWidth :: "item list \<Rightarrow> real option" where
  "maxWidth items =
     (if totalArea items < 0 then None
      else Some (min 4096 (max 512 (sqrt (real_of_int (totalArea items)) * 1.5))))"

text \<open>
  \<^verbatim>\<open>currentX + item.w > maxWidth && currentX > 0\<close>; every comparison with \<^verbatim>\<open>NaN\<close> is
  false.
\<close>

definition needsWrap :: "real option \<Rightarrow> cursor \<Rightarrow> item \<Rightarrow> bool" where
  "needsWrap mw c item =
     (case mw of
        None \<Rightarrow> False
      | Some m \<Rightarrow> real_of_int (currentX c + w item) > m \<and> currentX c > 0)"

text \<open>One call of the closure: the wrap, the placement, then the three cursor updates.\<close>

definition placeItem :: "real option \<Rightarrow> cursor \<Rightarrow> item \<Rightarrow> positioned \<times> cursor" where
  "placeItem mw c item =
     (let c1 = (if needsWrap mw c item
                then c\<lparr>currentX := 0,
                       currentY := currentY c + (rowHeight c + padding),
                       rowHeight := 0\<rparr>
                else c);
          pos = (item, currentX c1, currentY c1);
          c2 = c1\<lparr>currentX := currentX c1 + (w item + padding)\<rparr>;
          c3 = c2\<lparr>rowHeight := max (rowHeight c2) (h item)\<rparr>;
          c4 = c3\<lparr>maxCanvasWidth := max (maxCanvasWidth c3) (currentX c3)\<rparr>
      in (pos, c4))"

text \<open>\<^verbatim>\<open>items.map(item => ...)\<close>, with the closure's state threaded through.\<close>

fun placeAll :: "real option \<Rightarrow> cursor \<Rightarrow> item list \<Rightarrow> positioned list \<times> cursor" where
  "placeAll mw c [] = ([], c)"
| "placeAll mw c (item # items) =
     (let (pos, c') = placeItem mw c item;
          (ps, c'') = placeAll mw c' items
      in (pos # ps, c''))"

text \<open>
  \<^verbatim>\<open>name: item.tag || item.name\<close>: an absent or empty tag is falsy, and then the name is
  taken.
\<close>

definition tagOrName :: "item \<Rightarrow> string" where
  "tagOrName item =
     (case tag item of
        None \<Rightarrow> name item
      | Some t \<Rightarrow> if t = [] then name item else t)"

definition toSprite :: "positioned \<Rightarrow> int sprite" where
  "toSprite p =
     (case p of (item, px, py) \<Rightarrow>
        \<lparr>ident = ident item, name = tagOrName item, w = w item, h = h item,
         x = px, y = py\<rparr>)"

text \<open>
  \<^verbatim>\<open>repackSprites\<close> returns nothing; its effect is the two state updates. With no items
  it returns before any update. The call of \<^verbatim>\<open>drawComposite\<close> it schedules renders
  pixels and is not modelled.
\<close>

definition repackSprites :: "session \<Rightarrow> item list \<Rightarrow> session" where
  "repackSprites st items =
     (if length items = 0 then st
      else
        (let (positionedItems, c) = placeAll (maxWidth items) cursor0 items;
             finalWidth = maxCanvasWidth c;
             finalHeight = currentY c + rowHeight c;
             newSprites = map toSprite positionedItems
         in st\<lparr>imageDimensions := \<lparr>width = finalWidth, height = finalHeight\<rparr>,
                sprites := newSprites\<rparr>))"

text \<open>The rectangles that a call with at least one item installs.\<close>

definition packedSprites :: "item list \<Rightarrow> int sprite list" where
  "packedSprites items = map toSprite (fst (placeAll (maxWidth items) cursor0 items))"

definition mkItem :: "rat \<Rightarrow> string \<Rightarrow> int \<Rightarrow> int \<Rightarrow> item" where
  "mkItem i n a b = \<lparr>ident = i, name = n, w = a, h = b, tag = Some n\<rparr>"

definition session0 :: session where
  "session0 = \<lparr>sprites = [], imageDimensions = \<lparr>width = 0, height = 0\<rparr>\<rparr>"

section \<open>JavaScript built-ins used by the URL codec and the code generator\<close>

text \<open>
  A JavaScript string is modelled as a list of characters. Every character the codec and
  the generator inspect is ASCII.
\<close>

subsection \<open>Strings: \<^verbatim>\<open>startsWith\<close>, \<^verbatim>\<open>split\<close>, \<^verbatim>\<open>join\<close>\<close>

definition startsWith :: "string \<Rightarrow> string \<Rightarrow> bool" where
  "startsWith s p = (take (length p) s = p)"

text \<open>
  \<^verbatim>\<open>s.split(c)\<close> for a separator of one character: the pieces between the
  separators, always at least one piece.
\<close>

fun splitOn :: "char \<Rightarrow> string \<Rightarrow> string list" where
  "splitOn c [] = [[]]"
| "splitOn c (a # s) =
     (if a = c then [] # splitOn c s
      else (case splitOn c s of
              [] \<Rightarrow> [[a]]
            | p # ps \<Rightarrow> (a # p) # ps))"

text \<open>\<^verbatim>\<open>pieces.join(c)\<close>\<close>

fun joinWith :: "char \<Rightarrow> string list \<Rightarrow> string" where
  "joinWith c [] = []"
| "joinWith c [p] = p"
| "joinWith c (p # q # ps) = p @ c # joinWith c (q # ps)"

subsection \<open>Numbers to strings\<close>

definition digitChar :: "nat \<Rightarrow> char" where
  "digitChar d = ''0123456789'' ! d"

fun showNat :: "nat \<Rightarrow> string" where
  "showNat n = (if n < 10 then [digitChar n] else showNat (n div 10) @ [digitChar (n mod 10)])"

text \<open>
  The string a template literal or \<^verbatim>\<open>JSON.stringify\<close> prints for an integer: its
  decimal digits, with a minus sign when it is negative. (JavaScript switches to
  exponent notation from \<open>10^21\<close> on, far above the integers a double holds exactly.)
\<close>

definition numberToString :: "int \<Rightarrow> string" where
  "numberToString n = (if n < 0 then CHR ''-'' # showNat (nat (- n)) else showNat (nat n))"

subsection \<open>Strings to numbers: \<^verbatim>\<open>Number(s)\<close>\<close>

text \<open>
  The value of \<^verbatim>\<open>Number(s)\<close>. A finite double is a rational number; the rounding of a
  decimal literal to the nearest double (and its overflow to an infinity) is not
  modelled, so that a literal denotes its exact value.
\<close>

datatype number = Finite rat | PlusInfinity | MinusInfinity | NaN

definition isNaN :: "number \<Rightarrow> bool" where
  "isNaN v = (v = NaN)"

definition negate :: "number \<Rightarrow> number" where
  "negate v =
     (case v of
        Finite q \<Rightarrow> Finite (- q)
      | PlusInfinity \<Rightarrow> MinusInfinity
      | MinusInfinity \<Rightarrow> PlusInfinity
      | NaN \<Rightarrow> NaN)"

text \<open>
  The ASCII white space that \<^verbatim>\<open>Number\<close> strips: TAB, LF, VT, FF, CR and SP. The white
  space outside ASCII (such as the no-break space) is not modelled.
\<close>

definition isWhiteSpace :: "char \<Rightarrow> bool" where
  "isWhiteSpace c = (c \<in> set [CHR 0x09, CHR 0x0A, CHR 0x0B, CHR 0x0C, CHR 0x0D, CHR 0x20])"

definition trim :: "string \<Rightarrow> string" where
  "trim s = rev (dropWhile isWhiteSpace (rev (dropWhile isWhiteSpace s)))"

definition digitTable :: "(char \<times> nat) list" where
  "digitTable =
     [(CHR ''0'', 0), (CHR ''1'', 1), (CHR ''2'', 2), (CHR ''3'', 3), (CHR ''4'', 4),
      (CHR ''5'', 5), (CHR ''6'', 6), (CHR ''7'', 7), (CHR ''8'', 8), (CHR ''9'', 9),
      (CHR ''a'', 10), (CHR ''b'', 11), (CHR ''c'', 12), (CHR ''d'', 13), (CHR ''e'', 14),
      (CHR ''f'', 15), (CHR ''A'', 10), (CHR ''B'', 11), (CHR ''C'', 12), (CHR ''D'', 13),
      (CHR ''E'', 14), (CHR ''F'', 15)]"

definition digitVal :: "char \<Rightarrow> nat" where
  "digitVal c = (case map_of digitTable c of None \<Rightarrow> 0 | Some v \<Rightarrow> v)"

definition isDigitOf :: "nat \<Rightarrow> char \<Rightarrow> bool" where
  "isDigitOf radix c = (case map_of digitTable c of None \<Rightarrow> False | Some v \<Rightarrow> v < radix)"

definition isDigit :: "char \<Rightarrow> bool" where
  "isDigit c = isDigitOf 10 c"

definition digitsVal :: "nat \<Rightarrow> string \<Rightarrow> nat" where
  "digitsVal radix ds = foldl (\<lambda>acc c. radix * acc + digitVal c) 0 ds"

text \<open>A non-empty run of digits of the radix, or \<^verbatim>\<open>NaN\<close>.\<close>

definition parseDigits :: "nat \<Rightarrow> string \<Rightarrow> number" where
  "parseDigits radix ds =
     (if ds \<noteq> [] \<and> list_all (isDigitOf radix) ds then Finite (of_nat (digitsVal radix ds))
      else NaN)"

text \<open>
  The exponent part of a decimal literal: nothing, or \<^verbatim>\<open>e\<close> or \<^verbatim>\<open>E\<close>, an optional
  sign and at least one digit. \<open>None\<close> when the text is not an exponent part.
\<close>

definition parseExponent :: "string \<Rightarrow> int option" where
  "parseExponent s =
     (case s of
        [] \<Rightarrow> Some 0
      | c # r \<Rightarrow>
          if c = CHR ''e'' \<or> c = CHR ''E'' then
            (let (neg, ds) = (case r of
                                [] \<Rightarrow> (False, [])
                              | d # r' \<Rightarrow>
                                  if d = CHR ''+'' then (False, r')
                                  else if d = CHR ''-'' then (True, r')
                                  else (False, r))
             in if ds \<noteq> [] \<and> list_all isDigit ds
                then Some (if neg then - int (digitsVal 10 ds) else int (digitsVal 10 ds))
                else None)
          else None)"

definition scale10 :: "rat \<Rightarrow> int \<Rightarrow> rat" where
  "scale10 q e = (if 0 \<le> e then q * 10 ^ nat e else q / 10 ^ nat (- e))"

text \<open>
  An unsigned decimal literal: \<^verbatim>\<open>Infinity\<close>, or digits with an optional fraction and an
  optional exponent, with at least one digit before or after the point.
\<close>

definition parseUnsigned :: "string \<Rightarrow> number" where
  "parseUnsigned s =
     (if s = ''Infinity'' then PlusInfinity
      else
        (let ip = takeWhile isDigit s;
             r1 = dropWhile isDigit s;
             (fp, r2) = (case r1 of
                           [] \<Rightarrow> ([], [])
                         | c # r \<Rightarrow>
                             if c = CHR ''.'' then (takeWhile isDigit r, dropWhile isDigit r)
                             else ([], r1))
         in if ip = [] \<and> fp = [] then NaN
            else
              (case parseExponent r2 of
                 None \<Rightarrow> NaN
               | Some e \<Rightarrow>
                   Finite (scale10 (of_nat (digitsVal 10 ip) +
                                    of_nat (digitsVal 10 fp) / 10 ^ length fp) e))))"

text \<open>
  \<^verbatim>\<open>Number(s)\<close> for a string: white space is stripped, the empty string is zero, a
  prefix \<^verbatim>\<open>0x\<close>, \<^verbatim>\<open>0o\<close> or \<^verbatim>\<open>0b\<close> (either case) starts an unsigned integer in that
  radix, and anything else is a decimal literal with an optional sign.
\<close>

definition stringToNumber :: "string \<Rightarrow> number" where
  "stringToNumber s =
     (let t = trim s
      in if t = [] then Finite 0
         else if take 2 t = ''0x'' \<or> take 2 t = ''0X'' then parseDigits 16 (drop 2 t)
         else if take 2 t = ''0o'' \<or> take 2 t = ''0O'' then parseDigits 8 (drop 2 t)
         else if take 2 t = ''0b'' \<or> take 2 t = ''0B'' then parseDigits 2 (drop 2 t)
         else if hd t = CHR ''+'' then parseUnsigned (tl t)
         else if hd t = CHR ''-'' then negate (parseUnsigned (tl t))
         else parseUnsigned t)"

section \<open>URL codec: \<^verbatim>\<open>serializeSprites\<close> and \<^verbatim>\<open>deserializeSprites\<close> (App.jsx, lines 280-313)\<close>

text \<open>\<^verbatim>\<open>s.name.replace(/[:;,|]/g, '-')\<close>\<close>

definition reserved :: "char \<Rightarrow> bool" where
  "reserved c = (c \<in> set '':;,|'')"

definition cleanName :: "string \<Rightarrow> string" where
  "cleanName n = map (\<lambda>c. if reserved c then CHR ''-'' else c) n"

text \<open>The template literal \<^verbatim>\<open>${cleanName}:${s.x},${s.y},${s.w},${s.h}\<close>.\<close>

definition serializeSprite :: "int sprite \<Rightarrow> string" where
  "serializeSprite s =
     cleanName (name s) @ '':'' @ numberToString (x s) @ '','' @ numberToString (y s) @
     '','' @ numberToString (w s) @ '','' @ numberToString (h s)"

definition serializeSprites :: "int sprite list \<Rightarrow> string" where
  "serializeSprites spritesToSerialize =
     (if length spritesToSerialize = 0 then []
      else ''v1|'' @ joinWith (CHR '';'') (map serializeSprite spritesToSerialize))"

text \<open>
  An element of the array that a destructuring pattern reads: \<^verbatim>\<open>undefined\<close> (here
  \<open>None\<close>) when the array is shorter.
\<close>

definition element :: "'a list \<Rightarrow> nat \<Rightarrow> 'a option" where
  "element xs i = (if i < length xs then Some (xs ! i) else None)"

text \<open>\<^verbatim>\<open>isNaN(v)\<close> for an element of \<^verbatim>\<open>coords.split(',').map(Number)\<close>; \<^verbatim>\<open>isNaN(undefined)\<close> is true.\<close>

definition numberAt :: "number list \<Rightarrow> nat \<Rightarrow> number" where
  "numberAt vs i = (case element vs i of None \<Rightarrow> NaN | Some v \<Rightarrow> v)"

text \<open>
  The callback of \<^verbatim>\<open>items.map((item, index) => ...)\<close>; \<open>None\<close> is its \<^verbatim>\<open>null\<close>. The
  argument \<open>now\<close> gives the reading of \<^verbatim>\<open>Date.now()\<close> taken for the record at each
  index.
\<close>

definition deserializeItem :: "(nat \<Rightarrow> int) \<Rightarrow> nat \<Rightarrow> string \<Rightarrow> number sprite option" where
  "deserializeItem now index item =
     (let parts = splitOn (CHR '':'') item;
          nameField = element parts 0;
          coords = element parts 1
      in if nameField = None \<or> nameField = Some [] \<or> coords = None \<or> coords = Some [] then None
         else
           (let vs = map stringToNumber (splitOn (CHR '','') (the coords));
                vx = numberAt vs 0;
                vy = numberAt vs 1;
                vw = numberAt vs 2;
                vh = numberAt vs 3
            in if isNaN vx \<or> isNaN vy \<or> isNaN vw \<or> isNaN vh then None
               else Some \<lparr>ident = of_int (now index) + of_nat index,
                          name = the nameField, w = vw, h = vh, x = vx, y = vy\<rparr>))"

text \<open>\<^verbatim>\<open>.filter(Boolean)\<close> on an array of objects and \<^verbatim>\<open>null\<close>s.\<close>

definition filterBoolean :: "'a option list \<Rightarrow> 'a list" where
  "filterBoolean xs = List.map_filter (\<lambda>v. v) xs"

definition deserializeSprites :: "(nat \<Rightarrow> int) \<Rightarrow> string \<Rightarrow> number sprite list" where
  "deserializeSprites now hash =
     (if hash = [] \<or> \<not> startsWith hash ''#'' then []
      else
        (let content = drop 1 hash
         in if \<not> startsWith content ''v1|'' then []
            else
              (let dataStr = drop 3 content
               in if dataStr = [] then []
                  else
                    (let items = splitOn (CHR '';'') dataStr
                     in filterBoolean
                          (map (\<lambda>(item, index). deserializeItem now index item)
                             (zip items [0..<length items]))))))"

section \<open>Code generator: \<^verbatim>\<open>generateCode\<close> (App.jsx, lines 535-577)\<close>

definition placeholder :: string where
  "placeholder = ''/* Paste images to generate Mixins */''"

definition scssHeader :: "dims \<Rightarrow> string" where
  "scssHeader d =
     ''/* Generated by Sprite Builder */\<newline>'' @
     ''/* Binary Source Size: '' @
     numberToString (width d) @
     ''x'' @
     numberToString (height d) @
     ''px */\<newline>'' @
     ''\<newline>'' @
     ''// 1. Config Map\<newline>'' @
     ''$sprite-image: '' @ [CHR 0x27] @ ''sprites.png'' @ [CHR 0x27] @ '';\<newline>'' @
     ''$sprite-width: '' @
     numberToString (width d) @
     ''px;\<newline>'' @
     ''$sprite-height: '' @
     numberToString (height d) @
     ''px;\<newline>'' @
     ''\<newline>'' @
     ''$sprites: (\<newline>''"

definition scssEntry :: "int sprite \<Rightarrow> string" where
  "scssEntry s =
     ''  '' @ [CHR 0x27] @
     name s @
     [CHR 0x27] @ '': (x: -'' @
     numberToString (x s) @
     ''px, y: -'' @
     numberToString (y s) @
     ''px, w: '' @
     numberToString (w s) @
     ''px, h: '' @
     numberToString (h s) @
     ''px),\<newline>''"

definition scssMixin :: "string" where
  "scssMixin =
     '');\<newline>'' @
     ''\<newline>'' @
     ''// 2. Mixin: Reference by Tag Name\<newline>'' @
     ''@mixin sprite($name) {\<newline>'' @
     ''  $icon: map-get($sprites, $name);\<newline>'' @
     ''  background-image: url(#{$sprite-image});\<newline>'' @
     ''  background-repeat: no-repeat;\<newline>'' @
     ''  background-size: $sprite-width $sprite-height;\<newline>'' @
     ''  background-position: map-get($icon, '' @ [CHR 0x27] @ ''x'' @ [CHR 0x27] @ '') map-get($icon, '' @ [CHR 0x27] @ ''y'' @ [CHR 0x27] @ '');\<newline>'' @
     ''  width: map-get($icon, '' @ [CHR 0x27] @ ''w'' @ [CHR 0x27] @ '');\<newline>'' @
     ''  height: map-get($icon, '' @ [CHR 0x27] @ ''h'' @ [CHR 0x27] @ '');\<newline>'' @
     ''  \<newline>'' @
     ''  // UX: Disable default touch actions for better gesture control\<newline>'' @
     ''  touch-action: none;\<newline>'' @
     ''}\<newline>'' @
     ''\<newline>''"

definition scssHighlight :: "string" where
  "scssHighlight =
     ''// 3. Highlight Helper (GPU Accelerated)\<newline>'' @
     ''// Perfect for click/touch feedback on transparent PNGs\<newline>'' @
     ''@mixin sprite-highlight($scale: 1.1) {\<newline>'' @
     ''  filter: drop-shadow(0 4px 6px rgba(0,0,0,0.2)) brightness(1.1);\<newline>'' @
     ''  transform: scale($scale);\<newline>'' @
     ''  transition: transform 0.1s ease, filter 0.1s ease;\<newline>'' @
     ''}\<newline>'' @
     ''\<newline>'' @
     ''// Usage:\<newline>'' @
     ''// .btn-play { @include sprite('' @ [CHR 0x27] @ ''start-btn'' @ [CHR 0x27] @ ''); }\<newline>'' @
     ''// .btn-play:active { @include sprite-highlight; }''"

definition cssBase :: "dims \<Rightarrow> string" where
  "cssBase d =
     ''/* Base Class */\<newline>'' @
     ''.sprite {\<newline>'' @
     ''  background-image: url('' @ [CHR 0x27] @ ''sprites.png'' @ [CHR 0x27] @ '');\<newline>'' @
     ''  background-repeat: no-repeat;\<newline>'' @
     ''  display: inline-block;\<newline>'' @
     ''  background-size: '' @
     numberToString (width d) @
     ''px '' @
     numberToString (height d) @
     ''px;\<newline>'' @
     ''}\<newline>'' @
     ''\<newline>''"

definition cssRule :: "int sprite \<Rightarrow> string" where
  "cssRule s =
     ''/* Tag: '' @
     name s @
     '' */\<newline>'' @
     ''.'' @
     name s @
     '' {\<newline>'' @
     ''  width: '' @
     numberToString (w s) @
     ''px;\<newline>'' @
     ''  height: '' @
     numberToString (h s) @
     ''px;\<newline>'' @
     ''  background-position: -'' @
     numberToString (x s) @
     ''px -'' @
     numberToString (y s) @
     ''px;\<newline>'' @
     ''}\<newline>''"

subsection \<open>\<^verbatim>\<open>JSON.stringify(map, null, 2)\<close>\<close>

text \<open>
  The object \<^verbatim>\<open>map\<close> is an association list in insertion order. An assignment to a
  key that is present replaces the value and keeps the key's place. An assignment to
  \<^verbatim>\<open>__proto__\<close> sets the prototype of the object and creates no property.
\<close>

type_synonym region = "int \<times> int \<times> int \<times> int"

definition setProperty :: "string \<Rightarrow> region \<Rightarrow> (string \<times> region) list \<Rightarrow> (string \<times> region) list" where
  "setProperty k v obj = (if k = ''__proto__'' then obj else AList.update k v obj)"

text \<open>
  \<^verbatim>\<open>sprites.forEach(s => { map[s.name] = { x: s.x, y: s.y, width: s.w, height: s.h }; })\<close>
\<close>

definition buildMap :: "int sprite list \<Rightarrow> (string \<times> region) list" where
  "buildMap ss = foldl (\<lambda>obj s. setProperty (name s) (x s, y s, w s, h s) obj) [] ss"

text \<open>
  The keys of an object are enumerated with the array indices first, in ascending
  order, and then the other keys in insertion order. An array index is the decimal
  numeral, without leading zeros, of an integer below \<open>2^32 - 1\<close>.
\<close>

definition isArrayIndex :: "string \<Rightarrow> bool" where
  "isArrayIndex k =
     (k \<noteq> [] \<and> list_all isDigit k \<and> (k = ''0'' \<or> hd k \<noteq> CHR ''0'') \<and>
      digitsVal 10 k < 4294967295)"

definition ownEntries :: "(string \<times> region) list \<Rightarrow> (string \<times> region) list" where
  "ownEntries obj =
     sort_key (\<lambda>e. digitsVal 10 (fst e)) (filter (\<lambda>e. isArrayIndex (fst e)) obj) @
     filter (\<lambda>e. \<not> isArrayIndex (fst e)) obj"

definition hexChar :: "nat \<Rightarrow> char" where
  "hexChar d = ''0123456789abcdef'' ! d"

text \<open>The escape of one character inside a JSON string.\<close>

definition quoteChar :: "char \<Rightarrow> string" where
  "quoteChar c =
     (if c = CHR 0x22 then [CHR 0x5C, CHR 0x22]
      else if c = CHR 0x5C then [CHR 0x5C, CHR 0x5C]
      else if c = CHR 0x08 then [CHR 0x5C, CHR ''b'']
      else if c = CHR 0x0C then [CHR 0x5C, CHR ''f'']
      else if c = CHR 0x0A then [CHR 0x5C, CHR ''n'']
      else if c = CHR 0x0D then [CHR 0x5C, CHR ''r'']
      else if c = CHR 0x09 then [CHR 0x5C, CHR ''t'']
      else if of_char c < (32 :: nat)
        then [CHR 0x5C, CHR ''u'', CHR ''0'', CHR ''0'',
              hexChar (of_char c div 16), hexChar (of_char c mod 16)]
      else [c])"

definition quoteJSON :: "string \<Rightarrow> string" where
  "quoteJSON s = [CHR 0x22] @ concat (map quoteChar s) @ [CHR 0x22]"

definition jsonMember :: "string \<Rightarrow> string \<Rightarrow> int \<Rightarrow> string" where
  "jsonMember indent k v = indent @ quoteJSON k @ '': '' @ numberToString v"

definition jsonRegion :: "string \<times> region \<Rightarrow> string" where
  "jsonRegion e =
     (case e of (k, vx, vy, vw, vh) \<Rightarrow>
        ''  '' @ quoteJSON k @ '': {\<newline>'' @
        jsonMember ''    '' ''x'' vx @ '',\<newline>'' @
        jsonMember ''    '' ''y'' vy @ '',\<newline>'' @
        jsonMember ''    '' ''width'' vw @ '',\<newline>'' @
        jsonMember ''    '' ''height'' vh @ ''\<newline>'' @
        ''  }'')"

fun joinLines :: "string list \<Rightarrow> string" where
  "joinLines [] = []"
| "joinLines [p] = p"
| "joinLines (p # q # ps) = p @ '',\<newline>'' @ joinLines (q # ps)"

definition jsonStringify :: "(string \<times> region) list \<Rightarrow> string" where
  "jsonStringify obj =
     (if ownEntries obj = [] then ''{}''
      else ''{\<newline>'' @ joinLines (map jsonRegion (ownEntries obj)) @ ''\<newline>}'')"

subsection \<open>\<^verbatim>\<open>generateCode\<close>\<close>

text \<open>
  \<^verbatim>\<open>generateCode\<close> reads \<^verbatim>\<open>sprites\<close>, \<^verbatim>\<open>imageDimensions\<close> and \<^verbatim>\<open>codeMode\<close> from the
  state. It has four \<^verbatim>\<open>return\<close> statements, each of a string; when none is reached the
  function ends without one and its value is \<^verbatim>\<open>undefined\<close>, here \<open>None\<close>.
\<close>

definition generateCode :: "string \<Rightarrow> session \<Rightarrow> string option" where
  "generateCode codeMode st =
     (if length (sprites st) = 0 then Some placeholder
      else if codeMode = ''scss'' then
        Some (scssHeader (imageDimensions st) @ concat (map scssEntry (sprites st)) @
              scssMixin @ scssHighlight)
      else if codeMode = ''css'' then
        Some (cssBase (imageDimensions st) @ concat (map cssRule (sprites st)))
      else if codeMode = ''json'' then Some (jsonStringify (buildMap (sprites st)))
      else None)"

subsection \<open>The state \<^verbatim>\<open>codeMode\<close> (App.jsx, lines 66 and 852-855)\<close>





section \<open>Predicates and examples used in the statements\<close>

text \<open>Two rectangles overlap when their interiors meet.\<close>

definition overlap :: "int sprite \<Rightarrow> int sprite \<Rightarrow> bool" where
  "overlap a b =
     (x a < x b + w b \<and> x b < x a + w a \<and> y a < y b + h b \<and> y b < y a + h a)"

definition positiveSizes :: "item list \<Rightarrow> bool" where
  "positiveSizes items = list_all (\<lambda>it. 0 < w it \<and> 0 < h it) items"

definition nonNegativeSizes :: "item list \<Rightarrow> bool" where
  "nonNegativeSizes items = list_all (\<lambda>it. 0 \<le> w it \<and> 0 \<le> h it) items"

text \<open>The example of the specification: three items of 100 by 50 pixels.\<close>

definition exampleItems :: "item list" where
  "exampleItems = [mkItem 1 ''a'' 100 50, mkItem 2 ''b'' 100 50, mkItem 3 ''c'' 100 50]"

text \<open>Items with a tag, with an empty tag and without a tag.\<close>

definition taggedItems :: "item list" where
  "taggedItems =
     [\<lparr>ident = 1, name = ''sprite-1'', w = 10, h = 20, tag = Some ''hero''\<rparr>,
      \<lparr>ident = 2, name = ''sprite-2'', w = 30, h = 40, tag = Some []\<rparr>,
      \<lparr>ident = 3, name = ''sprite-3'', w = 50, h = 60, tag = None\<rparr>]"

text \<open>Items that fill more than one row, and a single item wider than any row.\<close>

definition wideItems :: "item list" where
  "wideItems = [mkItem 1 ''a'' 300 50, mkItem 2 ''b'' 300 50, mkItem 3 ''c'' 300 50]"

definition bannerItems :: "item list" where
  "bannerItems = [mkItem 1 ''banner'' 5000 10]"

text \<open>
  The \<^verbatim>\<open>(name, x, y, w, h)\<close> tuple of a rectangle, and the tuple that the decoder is
  expected to return for a rectangle with integer coordinates.
\<close>

definition coordinates :: "'n sprite \<Rightarrow> string \<times> 'n \<times> 'n \<times> 'n \<times> 'n" where
  "coordinates r = (name r, x r, y r, w r, h r)"

definition asNumbers :: "int sprite \<Rightarrow> string \<times> number \<times> number \<times> number \<times> number" where
  "asNumbers s =
     (name s, Finite (of_int (x s)), Finite (of_int (y s)), Finite (of_int (w s)),
      Finite (of_int (h s)))"

text \<open>
  Names without the reserved characters of the URL format, and names that are moreover
  not empty.
\<close>

definition reservedFree :: "int sprite list \<Rightarrow> bool" where
  "reservedFree rs = list_all (\<lambda>s. \<not> list_ex reserved (name s)) rs"

definition safeNames :: "int sprite list \<Rightarrow> bool" where
  "safeNames rs = list_all (\<lambda>s. name s \<noteq> [] \<and> \<not> list_ex reserved (name s)) rs"

text \<open>
  A record of the URL format is malformed when its name is missing, its coordinates are
  missing, or one of its first four coordinate fields is missing or is not a number.
\<close>

definition malformed :: "string \<Rightarrow> bool" where
  "malformed item =
     (let parts = splitOn (CHR '':'') item
      in hd parts = [] \<or> length parts < 2 \<or> parts ! 1 = [] \<or>
         (let fields = splitOn (CHR '','') (parts ! 1)
          in length fields < 4 \<or> list_ex (\<lambda>f. stringToNumber f = NaN) (take 4 fields)))"

text \<open>
  The invariant that section 3 of the specification documents for a rectangle:
  non-negative integer coordinates, with positive width and height.
\<close>

definition isNonNegativeInteger :: "number \<Rightarrow> bool" where
  "isNonNegativeInteger v =
     (case v of Finite q \<Rightarrow> 0 \<le> q \<and> q = of_int \<lfloor>q\<rfloor> | _ \<Rightarrow> False)"

definition rectangleInvariant :: "number sprite \<Rightarrow> bool" where
  "rectangleInvariant r =
     (isNonNegativeInteger (x r) \<and> isNonNegativeInteger (y r) \<and>
      isNonNegativeInteger (w r) \<and> isNonNegativeInteger (h r) \<and>
      w r \<noteq> Finite 0 \<and> h r \<noteq> Finite 0)"

text \<open>A clock for the examples, and example rectangles.\<close>

definition clock0 :: "nat \<Rightarrow> int" where
  "clock0 index = 1700000000000"

definition iconA :: "int sprite" where
  "iconA = \<lparr>ident = 1, name = ''icon-a'', w = 32, h = 32, x = 0, y = 0\<rparr>"

definition iconB :: "int sprite" where
  "iconB = \<lparr>ident = 2, name = ''icon-b'', w = 32, h = 32, x = 34, y = 0\<rparr>"

definition unnamed :: "int sprite" where
  "unnamed = \<lparr>ident = 3, name = [], w = 32, h = 32, x = 0, y = 0\<rparr>"

definition play :: "int sprite" where
  "play = \<lparr>ident = 1, name = ''play'', w = 32, h = 32, x = 0, y = 0\<rparr>"



section \<open>Properties of the layout engine\<close>

lemma placeItem_eq:
  "placeItem mw c it =
     (if needsWrap mw c it
      then ((it, 0, currentY c + (rowHeight c + padding)),
            \<lparr>currentX = w it + padding,
             currentY = currentY c + (rowHeight c + padding),
             rowHeight = max 0 (h it),
             maxCanvasWidth = max (maxCanvasWidth c) (w it + padding)\<rparr>)
      else ((it, currentX c, currentY c),
            \<lparr>currentX = currentX c + (w it + padding),
             currentY = currentY c,
             rowHeight = max (rowHeight c) (h it),
             maxCanvasWidth = max (maxCanvasWidth c) (currentX c + (w it + padding))\<rparr>))"
  by (simp add: placeItem_def Let_def)

lemma placeAll_Cons:
  "placeAll mw c (it # items) =
     (fst (placeItem mw c it) # fst (placeAll mw (snd (placeItem mw c it)) items),
      snd (placeAll mw (snd (placeItem mw c it)) items))"
  by (simp add: case_prod_beta)

declare placeAll.simps(2) [simp del]

lemma placeAll_fst_items: "map fst (fst (placeAll mw c items)) = items"
  by (induction items arbitrary: c) (simp_all add: placeAll_Cons placeItem_eq)

lemma length_placeAll: "length (fst (placeAll mw c items)) = length items"
  using placeAll_fst_items [of mw c items] by (metis length_map)

lemma placeAll_region:
  assumes "\<forall>it \<in> set items. 0 \<le> w it"
    and "(it, px, py) \<in> set (fst (placeAll mw c items))"
  shows "(py = currentY c \<and> currentX c \<le> px) \<or> currentY c + rowHeight c + padding \<le> py"
  using assms
proof (induction items arbitrary: c)
  case Nil
  then show ?case by simp
next
  case (Cons a items)
  show ?case
  proof (cases "(it, px, py) = fst (placeItem mw c a)")
    case True
    then show ?thesis by (simp add: placeItem_eq split: if_splits)
  next
    case False
    with Cons.prems have "(it, px, py) \<in> set (fst (placeAll mw (snd (placeItem mw c a)) items))"
      by (simp add: placeAll_Cons)
    with Cons.IH [of "snd (placeItem mw c a)"] Cons.prems(1)
    have "(py = currentY (snd (placeItem mw c a)) \<and> currentX (snd (placeItem mw c a)) \<le> px) \<or>
          currentY (snd (placeItem mw c a)) + rowHeight (snd (placeItem mw c a)) + padding \<le> py"
      by simp
    moreover have "0 \<le> w a" using Cons.prems(1) by simp
    ultimately show ?thesis
      by (auto simp: placeItem_eq padding_def split: if_splits)
  qed
qed

lemma placeAll_nonneg:
  assumes "\<forall>it \<in> set items. 0 \<le> w it"
    and "0 \<le> currentX c" and "0 \<le> currentY c" and "0 \<le> rowHeight c"
    and "(it, px, py) \<in> set (fst (placeAll mw c items))"
  shows "0 \<le> px \<and> 0 \<le> py"
  using assms
proof (induction items arbitrary: c)
  case Nil
  then show ?case by simp
next
  case (Cons a items)
  show ?case
  proof (cases "(it, px, py) = fst (placeItem mw c a)")
    case True
    with Cons.prems show ?thesis by (simp add: placeItem_eq padding_def split: if_splits)
  next
    case False
    with Cons.prems have mem: "(it, px, py) \<in> set (fst (placeAll mw (snd (placeItem mw c a)) items))"
      by (simp add: placeAll_Cons)
    have "0 \<le> w a" using Cons.prems(1) by simp
    with Cons.prems have "0 \<le> currentX (snd (placeItem mw c a))"
      "0 \<le> currentY (snd (placeItem mw c a))" "0 \<le> rowHeight (snd (placeItem mw c a))"
      by (simp_all add: placeItem_eq padding_def le_max_iff_disj)
    with Cons.IH [OF _ _ _ _ mem] Cons.prems(1) show ?thesis by simp
  qed
qed

lemma placeAll_width:
  "maxCanvasWidth (snd (placeAll mw c items)) =
     Max (insert (maxCanvasWidth c)
       ((\<lambda>(it, px, py). px + w it + padding) ` set (fst (placeAll mw c items))))"
proof (induction items arbitrary: c)
  case Nil
  then show ?case by simp
next
  case (Cons a items)
  let ?c = "snd (placeItem mw c a)"
  let ?S = "(\<lambda>(it, px, py). px + w it + padding) ` set (fst (placeAll mw ?c items))"
  have fin: "finite ?S" by simp
  have step: "maxCanvasWidth ?c =
      max (maxCanvasWidth c) ((\<lambda>(it, px, py). px + w it + padding) (fst (placeItem mw c a)))"
    by (simp add: placeItem_eq add.assoc)
  have "maxCanvasWidth (snd (placeAll mw c (a # items))) = Max (insert (maxCanvasWidth ?c) ?S)"
    using Cons.IH [of ?c] by (simp add: placeAll_Cons)
  also have "\<dots> = Max (insert (maxCanvasWidth c)
      (insert ((\<lambda>(it, px, py). px + w it + padding) (fst (placeItem mw c a))) ?S))"
    unfolding step using fin
    by (cases "?S = {}") (simp_all add: max.assoc)
  finally show ?case by (simp add: placeAll_Cons)
qed

lemma placeAll_height:
  assumes "\<forall>it \<in> set items. 0 \<le> h it"
  shows "currentY (snd (placeAll mw c items)) + rowHeight (snd (placeAll mw c items)) =
     Max (insert (currentY c + rowHeight c)
       ((\<lambda>(it, px, py). py + h it) ` set (fst (placeAll mw c items))))"
  using assms
proof (induction items arbitrary: c)
  case Nil
  then show ?case by simp
next
  case (Cons a items)
  let ?c = "snd (placeItem mw c a)"
  let ?S = "(\<lambda>(it, px, py). py + h it) ` set (fst (placeAll mw ?c items))"
  have fin: "finite ?S" by simp
  have "0 \<le> h a" using Cons.prems by simp
  then have step: "currentY ?c + rowHeight ?c =
      max (currentY c + rowHeight c) ((\<lambda>(it, px, py). py + h it) (fst (placeItem mw c a)))"
    by (simp add: placeItem_eq padding_def max_def)
  have "currentY (snd (placeAll mw c (a # items))) + rowHeight (snd (placeAll mw c (a # items)))
      = Max (insert (currentY ?c + rowHeight ?c) ?S)"
    using Cons.IH [of ?c] Cons.prems by (simp add: placeAll_Cons)
  also have "\<dots> = Max (insert (currentY c + rowHeight c)
      (insert ((\<lambda>(it, px, py). py + h it) (fst (placeItem mw c a))) ?S))"
    unfolding step using fin
    by (cases "?S = {}") (simp_all add: max.assoc)
  finally show ?case by (simp add: placeAll_Cons)
qed

lemma placeAll_append:
  "placeAll mw c (xs @ ys) =
     (fst (placeAll mw c xs) @ fst (placeAll mw (snd (placeAll mw c xs)) ys),
      snd (placeAll mw (snd (placeAll mw c xs)) ys))"
  by (induction xs arbitrary: c) (simp_all add: placeAll_Cons)

lemma needsWrap_at_0: "currentX c = 0 \<Longrightarrow> \<not> needsWrap mw c it"
  by (simp add: needsWrap_def split: option.splits)

lemma totalArea_foldl:
  "foldl (\<lambda>acc item. acc + w item * h item) a items = a + totalArea items"
  unfolding totalArea_def
proof (induction items arbitrary: a)
  case Nil
  show ?case by simp
next
  case (Cons b items)
  show ?case
    using Cons.IH [of "a + w b * h b"] Cons.IH [of "0 + w b * h b"] by simp
qed

lemma totalArea_Cons: "totalArea (it # items) = w it * h it + totalArea items"
  using totalArea_foldl [of "w it * h it" items] by (simp add: totalArea_def)

lemma totalArea_Nil: "totalArea [] = 0"
  by (simp add: totalArea_def)

lemma totalArea_nonneg: "list_all (\<lambda>it. 0 \<le> w it \<and> 0 \<le> h it) items \<Longrightarrow> 0 \<le> totalArea items"
  by (induction items) (simp_all add: totalArea_Nil totalArea_Cons)

lemma maxWidth_small:
  assumes "0 \<le> totalArea items" and "totalArea items \<le> 116508"
  shows "maxWidth items = Some 512"
proof -
  have "real_of_int (totalArea items) \<le> (1024 / 3)\<^sup>2"
    using assms(2) by (simp add: power2_eq_square)
  then have "sqrt (real_of_int (totalArea items)) \<le> 1024 / 3"
    by (intro real_le_lsqrt) simp_all
  then have "sqrt (real_of_int (totalArea items)) * 1.5 \<le> 512" by simp
  then show ?thesis using assms(1) by (simp add: maxWidth_def)
qed

lemma maxWidth_exampleItems: "maxWidth exampleItems = Some 512"
  by (rule maxWidth_small) (simp_all add: exampleItems_def totalArea_Cons totalArea_Nil mkItem_def)

lemma placeAll_exampleItems:
  "placeAll (Some 512) cursor0 exampleItems =
     ([(mkItem 1 ''a'' 100 50, 0, 0), (mkItem 2 ''b'' 100 50, 102, 0), (mkItem 3 ''c'' 100 50, 204, 0)],
      \<lparr>currentX = 306, currentY = 0, rowHeight = 50, maxCanvasWidth = 306\<rparr>)"
  by (simp add: exampleItems_def placeAll_Cons placeItem_eq needsWrap_def cursor0_def padding_def mkItem_def)

lemma sprites_repackSprites:
  "items \<noteq> [] \<Longrightarrow> sprites (repackSprites st items) = packedSprites items"
  by (simp add: repackSprites_def packedSprites_def Let_def split: prod.splits)

lemma dims_repackSprites:
  "items \<noteq> [] \<Longrightarrow> imageDimensions (repackSprites st items) =
     \<lparr>width = maxCanvasWidth (snd (placeAll (maxWidth items) cursor0 items)),
      height = currentY (snd (placeAll (maxWidth items) cursor0 items)) +
               rowHeight (snd (placeAll (maxWidth items) cursor0 items))\<rparr>"
  by (simp add: repackSprites_def Let_def split: prod.splits)

lemma repackSprites_exampleItems:
  "repackSprites st exampleItems =
     st\<lparr>imageDimensions := \<lparr>width = 306, height = 50\<rparr>,
        sprites := [\<lparr>ident = 1, name = ''a'', w = 100, h = 50, x = 0, y = 0\<rparr>,
                    \<lparr>ident = 2, name = ''b'', w = 100, h = 50, x = 102, y = 0\<rparr>,
                    \<lparr>ident = 3, name = ''c'', w = 100, h = 50, x = 204, y = 0\<rparr>]\<rparr>"
proof -
  have "exampleItems \<noteq> []" by (simp add: exampleItems_def)
  then show ?thesis
    by (simp add: repackSprites_def maxWidth_exampleItems placeAll_exampleItems toSprite_def
        tagOrName_def mkItem_def)
qed

lemma repackSprites_Nil: "repackSprites st [] = st"
  by (simp add: repackSprites_def)

subsection \<open>Empty input\<close>

text \<open>
  Claim C6, as amended. With no items \<^verbatim>\<open>repackSprites\<close> returns at its first statement:
  it is a no-op that leaves the rectangles and the canvas dimensions of the session as
  they were, and it is not an error. It does not set them to zero.
\<close>

theorem repackSprites_empty_keeps_session:
  "repackSprites st [] = st"
  by (rule repackSprites_Nil)

text \<open>
  Claim C6 as stated fails: after the three example items are packed, a call with no
  items leaves three rectangles and a canvas of 306 by 50 in the session, not zero
  rectangles and zero dimensions.
\<close>

theorem repackSprites_empty_counterexample:
  "sprites (repackSprites (repackSprites session0 exampleItems) []) \<noteq> [] \<and>
   width (imageDimensions (repackSprites (repackSprites session0 exampleItems) [])) = 306 \<and>
   height (imageDimensions (repackSprites (repackSprites session0 exampleItems) [])) = 50"
  by (simp add: repackSprites_exampleItems repackSprites_Nil)

subsection \<open>Order and frame\<close>

lemma toSprite_frame:
  "ident (toSprite p) = ident (fst p) \<and> name (toSprite p) = tagOrName (fst p) \<and>
   w (toSprite p) = w (fst p) \<and> h (toSprite p) = h (fst p)"
  by (cases p) (simp add: toSprite_def)

lemma packedSprites_frames:
  "map (\<lambda>s. (ident s, name s, w s, h s)) (packedSprites items) =
   map (\<lambda>it. (ident it, tagOrName it, w it, h it)) items"
proof -
  have "map (\<lambda>s. (ident s, name s, w s, h s)) (packedSprites items) =
        map ((\<lambda>it. (ident it, tagOrName it, w it, h it)) \<circ> fst)
          (fst (placeAll (maxWidth items) cursor0 items))"
    by (simp add: packedSprites_def toSprite_frame comp_def)
  also have "\<dots> = map (\<lambda>it. (ident it, tagOrName it, w it, h it))
      (map fst (fst (placeAll (maxWidth items) cursor0 items)))"
    by simp
  finally show ?thesis by (simp only: placeAll_fst_items)
qed

text \<open>
  Claim C9. For every list of items, the positioned items are the input items in input
  order, each with a position added and nothing else changed; the \<open>i\<close>-th rectangle
  has the identifier, width and height of the \<open>i\<close>-th item, and as its name the item's
  tag, or the item's name when the tag is absent or empty. A call with at least one
  item installs exactly these rectangles; a call with none installs nothing.
\<close>

theorem repackSprites_keeps_order_and_frame:
  "map fst (fst (placeAll (maxWidth items) cursor0 items)) = items \<and>
   map (\<lambda>s. (ident s, name s, w s, h s)) (packedSprites items) =
     map (\<lambda>it. (ident it, tagOrName it, w it, h it)) items \<and>
   (items \<noteq> [] \<longrightarrow> sprites (repackSprites st items) = packedSprites items) \<and>
   (items = [] \<longrightarrow> repackSprites st items = st)"
  by (simp add: placeAll_fst_items packedSprites_frames sprites_repackSprites repackSprites_Nil)

text \<open>
  Claim C9 at three items, of which the first has a tag, the second an empty tag and
  the third none.
\<close>

theorem repackSprites_keeps_order_and_frame_witness:
  "taggedItems \<noteq> [] \<and>
   map (\<lambda>s. (ident s, name s, w s, h s)) (sprites (repackSprites session0 taggedItems)) =
     [(1, ''hero'', 10, 20), (2, ''sprite-2'', 30, 40), (3, ''sprite-3'', 50, 60)]"
proof -
  have ne: "taggedItems \<noteq> []" by (simp add: taggedItems_def)
  from repackSprites_keeps_order_and_frame [of taggedItems session0] ne
  have "map (\<lambda>s. (ident s, name s, w s, h s)) (sprites (repackSprites session0 taggedItems)) =
     map (\<lambda>it. (ident it, tagOrName it, w it, h it)) taggedItems"
    by simp
  then show ?thesis using ne by (simp add: taggedItems_def tagOrName_def)
qed

subsection \<open>Canvas size\<close>

lemma Max_insert_floor:
  fixes S :: "int set"
  assumes "finite S" and "S \<noteq> {}" and "\<forall>v \<in> S. a \<le> v"
  shows "Max (insert a S) = Max S"
proof -
  obtain v where "v \<in> S" using assms(2) by blast
  then have "a \<le> v" and "v \<le> Max S" using assms by simp_all
  then have "a \<le> Max S" by simp
  then show ?thesis using assms by (simp add: max_def)
qed

lemma packed_canvas:
  assumes ne: "items \<noteq> []" and nn: "nonNegativeSizes items"
  shows "width (imageDimensions (repackSprites st items)) =
           Max ((\<lambda>s. x s + w s) ` set (sprites (repackSprites st items))) + padding"
    and "height (imageDimensions (repackSprites st items)) =
           Max ((\<lambda>s. y s + h s) ` set (sprites (repackSprites st items)))"
proof -
  let ?ps = "fst (placeAll (maxWidth items) cursor0 items)"
  let ?c = "snd (placeAll (maxWidth items) cursor0 items)"
  have wnn: "\<forall>it \<in> set items. 0 \<le> w it" and hnn: "\<forall>it \<in> set items. 0 \<le> h it"
    using nn by (auto simp: nonNegativeSizes_def list_all_iff)
  have psne: "set ?ps \<noteq> {}"
    using ne length_placeAll [of "maxWidth items" cursor0 items] by (cases ?ps) auto
  have pos: "0 \<le> px \<and> 0 \<le> py \<and> 0 \<le> w it \<and> 0 \<le> h it"
    if "(it, px, py) \<in> set ?ps" for it px py
  proof -
    have "it \<in> set (map fst ?ps)" using that by force
    then have "it \<in> set items" by (simp only: placeAll_fst_items)
    with wnn hnn placeAll_nonneg [OF wnn _ _ _ that] show ?thesis
      by (simp add: cursor0_def)
  qed
  have sp: "sprites (repackSprites st items) = map toSprite ?ps"
    using ne by (simp add: sprites_repackSprites packedSprites_def)
  have imgW: "(\<lambda>s. x s + w s + padding) ` set (map toSprite ?ps) =
        (\<lambda>(it, px, py). px + w it + padding) ` set ?ps"
    by (force simp: toSprite_def image_iff split: prod.splits)
  have imgH: "(\<lambda>s. y s + h s) ` set (map toSprite ?ps) =
        (\<lambda>(it, px, py). py + h it) ` set ?ps"
    by (force simp: toSprite_def image_iff split: prod.splits)
  have "width (imageDimensions (repackSprites st items)) = maxCanvasWidth ?c"
    using ne by (simp add: dims_repackSprites)
  also have "\<dots> = Max (insert 0 ((\<lambda>(it, px, py). px + w it + padding) ` set ?ps))"
    by (simp add: placeAll_width cursor0_def)
  also have "\<dots> = Max ((\<lambda>(it, px, py). px + w it + padding) ` set ?ps)"
    using psne pos by (intro Max_insert_floor) (auto simp: padding_def)
  also have "\<dots> = Max ((\<lambda>s. x s + w s + padding) ` set (sprites (repackSprites st items)))"
    by (simp only: sp imgW)
  also have "\<dots> = Max ((\<lambda>s. x s + w s) ` set (sprites (repackSprites st items))) + padding"
    using psne by (simp add: sp Max_add_commute)
  finally show "width (imageDimensions (repackSprites st items)) =
           Max ((\<lambda>s. x s + w s) ` set (sprites (repackSprites st items))) + padding" .
  have "height (imageDimensions (repackSprites st items)) = currentY ?c + rowHeight ?c"
    using ne by (simp add: dims_repackSprites)
  also have "\<dots> = Max (insert 0 ((\<lambda>(it, px, py). py + h it) ` set ?ps))"
    using placeAll_height [OF hnn, of "maxWidth items" cursor0] by (simp add: cursor0_def)
  also have "\<dots> = Max ((\<lambda>(it, px, py). py + h it) ` set ?ps)"
    using psne pos by (intro Max_insert_floor) auto
  also have "\<dots> = Max ((\<lambda>s. y s + h s) ` set (sprites (repackSprites st items)))"
    by (simp only: sp imgH)
  finally show "height (imageDimensions (repackSprites st items)) =
           Max ((\<lambda>s. y s + h s) ` set (sprites (repackSprites st items)))" .
qed

text \<open>
  Claim C1, as amended. For every non-empty list of items of non-negative width and
  height, the canvas width is the maximum of \<open>x + w\<close> over the rectangles plus the
  padding (the cursor has already moved past the padding when the running maximum is
  taken), and the canvas height is the maximum of \<open>y + h\<close> over the rectangles.
\<close>

theorem canvas_is_bounding_box_plus_padding:
  assumes "items \<noteq> []" and "nonNegativeSizes items"
  shows "width (imageDimensions (repackSprites st items)) =
           Max ((\<lambda>s. x s + w s) ` set (sprites (repackSprites st items))) + padding \<and>
         height (imageDimensions (repackSprites st items)) =
           Max ((\<lambda>s. y s + h s) ` set (sprites (repackSprites st items)))"
  using packed_canvas [OF assms] by simp

text \<open>
  Claim C1, as amended, at the example of the specification: three items of 100 by 50
  go into one row at \<open>x = 0, 102, 204\<close>, and the canvas is 306 by 50.
\<close>

theorem canvas_is_bounding_box_plus_padding_witness:
  "exampleItems \<noteq> [] \<and> nonNegativeSizes exampleItems \<and>
   map (\<lambda>s. (x s, y s, w s, h s)) (sprites (repackSprites session0 exampleItems)) =
     [(0, 0, 100, 50), (102, 0, 100, 50), (204, 0, 100, 50)] \<and>
   Max ((\<lambda>s. x s + w s) ` set (sprites (repackSprites session0 exampleItems))) = 304 \<and>
   Max ((\<lambda>s. y s + h s) ` set (sprites (repackSprites session0 exampleItems))) = 50 \<and>
   width (imageDimensions (repackSprites session0 exampleItems)) = 304 + padding \<and>
   height (imageDimensions (repackSprites session0 exampleItems)) = 50"
proof -
  have ne: "exampleItems \<noteq> []" by (simp add: exampleItems_def)
  have nn: "nonNegativeSizes exampleItems"
    by (simp add: exampleItems_def nonNegativeSizes_def mkItem_def)
  have mx: "Max ((\<lambda>s. x s + w s) ` set (sprites (repackSprites session0 exampleItems))) = 304"
    and my: "Max ((\<lambda>s. y s + h s) ` set (sprites (repackSprites session0 exampleItems))) = 50"
    by (simp_all add: repackSprites_exampleItems)
  from canvas_is_bounding_box_plus_padding [OF ne nn, of session0] mx my ne nn
  show ?thesis by (simp add: repackSprites_exampleItems)
qed

text \<open>
  Claim C1 as stated fails at its own example: the canvas is 306 by 50, not 304 by 50,
  and its width is not the maximum of \<open>x + w\<close>, which is 304.
\<close>

theorem canvas_tight_counterexample:
  "exampleItems \<noteq> [] \<and>
   width (imageDimensions (repackSprites session0 exampleItems)) = 306 \<and>
   height (imageDimensions (repackSprites session0 exampleItems)) = 50 \<and>
   Max ((\<lambda>s. x s + w s) ` set (sprites (repackSprites session0 exampleItems))) = 304 \<and>
   width (imageDimensions (repackSprites session0 exampleItems)) \<noteq>
     Max ((\<lambda>s. x s + w s) ` set (sprites (repackSprites session0 exampleItems)))"
proof -
  have "exampleItems \<noteq> []" by (simp add: exampleItems_def)
  then show ?thesis by (simp add: repackSprites_exampleItems)
qed

subsection \<open>No overlap\<close>

lemma placeAll_disjoint:
  assumes "\<forall>it \<in> set items. 0 \<le> w it"
  shows "sorted_wrt (\<lambda>a b. \<not> overlap a b) (map toSprite (fst (placeAll mw c items)))"
  using assms
proof (induction items arbitrary: c)
  case Nil
  then show ?case by simp
next
  case (Cons a items)
  let ?c = "snd (placeItem mw c a)"
  have wa: "0 \<le> w a" and rest: "\<forall>it \<in> set items. 0 \<le> w it"
    using Cons.prems by simp_all
  have head: "\<not> overlap (toSprite (fst (placeItem mw c a))) (toSprite p)"
    if "p \<in> set (fst (placeAll mw ?c items))" for p
  proof -
    obtain it px py where p: "p = (it, px, py)" by (cases p)
    from placeAll_region [OF rest, of it px py mw ?c] that p
    have "(py = currentY ?c \<and> currentX ?c \<le> px) \<or> currentY ?c + rowHeight ?c + padding \<le> py"
      by simp
    then show ?thesis
      by (auto simp: p overlap_def toSprite_def placeItem_eq padding_def split: if_splits)
  qed
  show ?case
    using Cons.IH [OF rest, of ?c] head by (simp add: placeAll_Cons)
qed

lemma overlap_sym: "overlap a b = overlap b a"
  by (auto simp: overlap_def)

lemma maxWidth_wideItems: "maxWidth wideItems = Some 512"
  by (rule maxWidth_small) (simp_all add: wideItems_def totalArea_Cons totalArea_Nil mkItem_def)

lemma packedSprites_wideItems:
  "packedSprites wideItems =
     [\<lparr>ident = 1, name = ''a'', w = 300, h = 50, x = 0, y = 0\<rparr>,
      \<lparr>ident = 2, name = ''b'', w = 300, h = 50, x = 0, y = 52\<rparr>,
      \<lparr>ident = 3, name = ''c'', w = 300, h = 50, x = 0, y = 104\<rparr>]"
  unfolding packedSprites_def maxWidth_wideItems
  by (simp add: wideItems_def placeAll_Cons placeItem_eq needsWrap_def cursor0_def padding_def
      mkItem_def toSprite_def tagOrName_def)

text \<open>
  Claim C7. For every non-empty list of items that all have positive width and height,
  no two rectangles that \<^verbatim>\<open>repackSprites\<close> installs overlap. The placement itself
  guarantees it: a later rectangle lies in the same row to the right of the padding, or
  in a row below the tallest item of the row plus the padding.
\<close>

theorem packed_rectangles_do_not_overlap:
  assumes "items \<noteq> []" and "positiveSizes items"
    and "i < length items" and "j < length items" and "i \<noteq> j"
  shows "\<not> overlap (sprites (repackSprites st items) ! i) (sprites (repackSprites st items) ! j)"
proof -
  have "\<forall>it \<in> set items. 0 \<le> w it"
    using assms(2) by (auto simp: positiveSizes_def list_all_iff intro: less_imp_le)
  then have "sorted_wrt (\<lambda>a b. \<not> overlap a b) (packedSprites items)"
    unfolding packedSprites_def by (rule placeAll_disjoint)
  moreover have "length (packedSprites items) = length items"
    by (simp add: packedSprites_def length_placeAll)
  ultimately have ordered: "\<not> overlap (packedSprites items ! k) (packedSprites items ! l)"
    if "k < l" and "l < length items" for k l
    using that by (simp add: sorted_wrt_iff_nth_less)
  have "\<not> overlap (packedSprites items ! i) (packedSprites items ! j)"
  proof (cases "i < j")
    case True
    then show ?thesis using ordered [of i j] assms(4) by simp
  next
    case False
    then have "j < i" using assms(5) by simp
    then show ?thesis using ordered [of j i] assms(3) by (simp add: overlap_sym)
  qed
  then show ?thesis using assms(1) by (simp add: sprites_repackSprites)
qed

text \<open>
  Claim C7 at three items of 300 by 50, which fill three rows: the first two rectangles
  share their range of \<open>x\<close> and are 2 apart in \<open>y\<close>.
\<close>

theorem packed_rectangles_do_not_overlap_witness:
  "wideItems \<noteq> [] \<and> positiveSizes wideItems \<and> (0::nat) < length wideItems \<and>
   1 < length wideItems \<and> (0::nat) \<noteq> 1 \<and>
   map (\<lambda>s. (x s, y s, w s, h s)) (sprites (repackSprites session0 wideItems)) =
     [(0, 0, 300, 50), (0, 52, 300, 50), (0, 104, 300, 50)] \<and>
   \<not> overlap (sprites (repackSprites session0 wideItems) ! 0)
             (sprites (repackSprites session0 wideItems) ! 1)"
proof -
  have ne: "wideItems \<noteq> []" and len: "0 < length wideItems" "1 < length wideItems"
    by (simp_all add: wideItems_def)
  have ps: "positiveSizes wideItems"
    by (simp add: wideItems_def positiveSizes_def mkItem_def)
  have "sprites (repackSprites session0 wideItems) = packedSprites wideItems"
    using ne by (rule sprites_repackSprites)
  with packed_rectangles_do_not_overlap [OF ne ps len, of session0] ne ps len
  show ?thesis by (simp add: packedSprites_wideItems)
qed

subsection \<open>The wrap rule\<close>

lemma placeAll_nth_append:
  "fst (placeAll mw c (pre @ it # post)) ! length pre = fst (placeItem mw (snd (placeAll mw c pre)) it)"
proof -
  have "length (fst (placeAll mw c pre)) = length pre" by (rule length_placeAll)
  then show ?thesis
    by (simp add: placeAll_append placeAll_Cons nth_append)
qed

lemma packedSprites_nth_append:
  "packedSprites (pre @ it # post) ! length pre =
     toSprite (fst (placeItem (maxWidth (pre @ it # post))
        (snd (placeAll (maxWidth (pre @ it # post)) cursor0 pre)) it))"
proof -
  have "length pre < length (fst (placeAll (maxWidth (pre @ it # post)) cursor0 (pre @ it # post)))"
    by (simp add: length_placeAll)
  then show ?thesis
    by (simp add: packedSprites_def placeAll_nth_append)
qed

lemma maxWidth_formula:
  "0 \<le> totalArea items \<Longrightarrow>
     maxWidth items = Some (min 4096 (max 512 (sqrt (real_of_int (totalArea items)) * 1.5)))"
  by (simp add: maxWidth_def)

lemma maxWidth_le: "maxWidth items = Some m \<Longrightarrow> 512 \<le> m \<and> m \<le> 4096"
  by (auto simp: maxWidth_def split: if_splits)

lemma width_ge_item:
  assumes nn: "nonNegativeSizes items" and mem: "it \<in> set items"
  shows "w it + padding \<le> width (imageDimensions (repackSprites st items))"
proof -
  let ?ps = "fst (placeAll (maxWidth items) cursor0 items)"
  have ne: "items \<noteq> []" using mem by auto
  have wnn: "\<forall>it \<in> set items. 0 \<le> w it"
    using nn by (auto simp: nonNegativeSizes_def list_all_iff)
  have "it \<in> set (map fst ?ps)" using mem by (simp only: placeAll_fst_items)
  then obtain px py where p: "(it, px, py) \<in> set ?ps" by force
  then have "0 \<le> px" using placeAll_nonneg [OF wnn _ _ _ p] by (simp add: cursor0_def)
  moreover have "px + w it + padding \<le> maxCanvasWidth (snd (placeAll (maxWidth items) cursor0 items))"
    unfolding placeAll_width [of "maxWidth items" cursor0 items]
    using p by (intro Max_ge) (auto simp: image_iff intro!: bexI [of _ "(it, px, py)"])
  ultimately show ?thesis using ne by (simp add: dims_repackSprites)
qed

text \<open>
  Claim C8. When the item \<open>it\<close> is reached with the cursor \<open>c\<close>, it goes to a new row
  (\<open>x = 0\<close>, \<open>y\<close> advanced by the row height and the padding) exactly when the target
  width is a number \<open>m\<close> with \<open>0 < currentX c\<close> and \<open>m < currentX c + w it\<close>; otherwise
  it is placed at the cursor. For items of non-negative size the target width is
  \<open>min 4096 (max 512 (sqrt totalArea * 1.5))\<close>. At \<open>currentX c = 0\<close> there is no wrap,
  whatever the width of the item; and whenever some item is wider than 4096, the canvas
  is wider than 4096 and wider than the target width.
\<close>

theorem wrap_rule_and_oversized_item:
  "(let items = pre @ it # post;
        c = snd (placeAll (maxWidth items) cursor0 pre);
        wrap = (\<exists>m. maxWidth items = Some m \<and> 0 < currentX c \<and> m < real_of_int (currentX c + w it));
        r = packedSprites items ! length pre
    in (wrap \<longrightarrow> x r = 0 \<and> y r = currentY c + rowHeight c + padding) \<and>
       (\<not> wrap \<longrightarrow> x r = currentX c \<and> y r = currentY c) \<and>
       (currentX c = 0 \<longrightarrow> \<not> wrap)) \<and>
   (nonNegativeSizes items \<longrightarrow>
      maxWidth items = Some (min 4096 (max 512 (sqrt (real_of_int (totalArea items)) * 1.5)))) \<and>
   (nonNegativeSizes items \<and> big \<in> set items \<and> 4096 < w big \<longrightarrow>
      (\<exists>m. maxWidth items = Some m \<and> m \<le> 4096 \<and>
           m < real_of_int (width (imageDimensions (repackSprites st items)))) \<and>
      4096 < width (imageDimensions (repackSprites st items)))"
proof -
  let ?items = "pre @ it # post"
  let ?c = "snd (placeAll (maxWidth ?items) cursor0 pre)"
  have wrap: "needsWrap (maxWidth ?items) ?c it \<longleftrightarrow>
      (\<exists>m. maxWidth ?items = Some m \<and> 0 < currentX ?c \<and> m < real_of_int (currentX ?c + w it))"
    by (auto simp: needsWrap_def split: option.splits)
  have A: "(let items = pre @ it # post;
        c = snd (placeAll (maxWidth items) cursor0 pre);
        wrap = (\<exists>m. maxWidth items = Some m \<and> 0 < currentX c \<and> m < real_of_int (currentX c + w it));
        r = packedSprites items ! length pre
    in (wrap \<longrightarrow> x r = 0 \<and> y r = currentY c + rowHeight c + padding) \<and>
       (\<not> wrap \<longrightarrow> x r = currentX c \<and> y r = currentY c) \<and>
       (currentX c = 0 \<longrightarrow> \<not> wrap))"
    unfolding Let_def wrap [symmetric] packedSprites_nth_append
    by (simp add: placeItem_eq toSprite_def needsWrap_at_0)
  have B: "nonNegativeSizes items \<longrightarrow>
      maxWidth items = Some (min 4096 (max 512 (sqrt (real_of_int (totalArea items)) * 1.5)))"
    by (simp add: nonNegativeSizes_def totalArea_nonneg maxWidth_formula)
  have C: "nonNegativeSizes items \<and> big \<in> set items \<and> 4096 < w big \<longrightarrow>
      (\<exists>m. maxWidth items = Some m \<and> m \<le> 4096 \<and>
           m < real_of_int (width (imageDimensions (repackSprites st items)))) \<and>
      4096 < width (imageDimensions (repackSprites st items))"
  proof (intro impI, elim conjE)
    assume nn: "nonNegativeSizes items" and mem: "big \<in> set items" and big: "4096 < w big"
    from width_ge_item [OF nn mem, of st] big
    have wd: "4096 < width (imageDimensions (repackSprites st items))"
      by (simp add: padding_def)
    from nn B obtain m where m: "maxWidth items = Some m" by blast
    then have "m \<le> 4096" by (simp add: maxWidth_le)
    moreover have "4096 < real_of_int (width (imageDimensions (repackSprites st items)))"
      using wd by linarith
    ultimately show "(\<exists>m. maxWidth items = Some m \<and> m \<le> 4096 \<and>
           m < real_of_int (width (imageDimensions (repackSprites st items)))) \<and>
      4096 < width (imageDimensions (repackSprites st items))"
      using m wd by auto
  qed
  from A B C show ?thesis by blast
qed

lemma maxWidth_bannerItems: "maxWidth bannerItems = Some 512"
  by (rule maxWidth_small) (simp_all add: bannerItems_def totalArea_Cons totalArea_Nil mkItem_def)

lemma placeAll_first_wide:
  "snd (placeAll (Some 512) cursor0 [mkItem 1 ''a'' 300 50]) =
     \<lparr>currentX = 302, currentY = 0, rowHeight = 50, maxCanvasWidth = 302\<rparr>"
  by (simp add: placeAll_Cons placeItem_eq needsWrap_def cursor0_def padding_def mkItem_def)

lemma repackSprites_bannerItems:
  "imageDimensions (repackSprites session0 bannerItems) = \<lparr>width = 5002, height = 10\<rparr>"
proof -
  have "bannerItems \<noteq> []" by (simp add: bannerItems_def)
  then show ?thesis
    by (simp add: dims_repackSprites maxWidth_bannerItems)
       (simp add: bannerItems_def placeAll_Cons placeItem_eq needsWrap_def cursor0_def
          padding_def mkItem_def)
qed

text \<open>
  Claim C8 at three items of 300 by 50, of which the second wraps to \<open>(0, 52)\<close>, and
  at a single item of 5000 by 10, whose canvas is 5002 wide with a target width of 512.
\<close>

theorem wrap_rule_and_oversized_item_witness:
  "wideItems = [mkItem 1 ''a'' 300 50] @ mkItem 2 ''b'' 300 50 # [mkItem 3 ''c'' 300 50] \<and>
   maxWidth wideItems = Some 512 \<and>
   snd (placeAll (Some 512) cursor0 [mkItem 1 ''a'' 300 50]) =
     \<lparr>currentX = 302, currentY = 0, rowHeight = 50, maxCanvasWidth = 302\<rparr> \<and>
   (512 :: real) < real_of_int (302 + w (mkItem 2 ''b'' 300 50)) \<and>
   x (packedSprites wideItems ! 1) = 0 \<and> y (packedSprites wideItems ! 1) = 52 \<and>
   nonNegativeSizes bannerItems \<and> mkItem 1 ''banner'' 5000 10 \<in> set bannerItems \<and>
   4096 < w (mkItem 1 ''banner'' 5000 10) \<and>
   maxWidth bannerItems = Some 512 \<and>
   width (imageDimensions (repackSprites session0 bannerItems)) = 5002"
proof -
  have split: "wideItems = [mkItem 1 ''a'' 300 50] @ mkItem 2 ''b'' 300 50 # [mkItem 3 ''c'' 300 50]"
    by (simp add: wideItems_def)
  have nn: "nonNegativeSizes bannerItems" and mem: "mkItem 1 ''banner'' 5000 10 \<in> set bannerItems"
    and big: "4096 < w (mkItem 1 ''banner'' 5000 10)"
    and far: "(512 :: real) < real_of_int (302 + w (mkItem 2 ''b'' 300 50))"
    by (simp_all add: nonNegativeSizes_def bannerItems_def mkItem_def)
  from wrap_rule_and_oversized_item
    [of "[mkItem 1 ''a'' 300 50]" "mkItem 2 ''b'' 300 50" "[mkItem 3 ''c'' 300 50]"
        bannerItems "mkItem 1 ''banner'' 5000 10" session0]
  have "x (packedSprites wideItems ! 1) = 0 \<and> y (packedSprites wideItems ! 1) = 52"
    unfolding split [symmetric] Let_def maxWidth_wideItems placeAll_first_wide
    using far by (simp add: padding_def)
  with split nn mem big far show ?thesis
    by (simp add: maxWidth_wideItems maxWidth_bannerItems placeAll_first_wide
        repackSprites_bannerItems)
qed

section \<open>Properties of the built-ins\<close>

lemma splitOn_not_Nil: "splitOn c s \<noteq> []"
  by (induction s) (auto split: list.splits)

lemma splitOn_no_sep: "c \<notin> set s \<Longrightarrow> splitOn c s = [s]"
  by (induction s) auto

lemma splitOn_append_sep: "c \<notin> set a \<Longrightarrow> splitOn c (a @ c # b) = a # splitOn c b"
  by (induction a) auto

lemma splitOn_joinWith:
  "ps \<noteq> [] \<Longrightarrow> \<forall>p \<in> set ps. c \<notin> set p \<Longrightarrow> splitOn c (joinWith c ps) = ps"
proof (induction c ps rule: joinWith.induct)
  case (1 c)
  then show ?case by simp
next
  case (2 c p)
  then show ?case by (simp add: splitOn_no_sep)
next
  case (3 c p q ps)
  then show ?case by (simp add: splitOn_append_sep)
qed

declare showNat.simps [simp del]

lemma digit_cases: "d < 10 \<Longrightarrow> d \<in> {0, 1, 2, 3, 4, 5, 6, 7, 8, 9 :: nat}"
  by auto

lemma digitVal_digitChar: "d < 10 \<Longrightarrow> digitVal (digitChar d) = d"
  using digit_cases [of d] by (auto simp: digitVal_def digitChar_def digitTable_def)

lemma isDigit_digitChar: "d < 10 \<Longrightarrow> isDigit (digitChar d)"
  using digit_cases [of d] by (auto simp: isDigit_def isDigitOf_def digitChar_def digitTable_def)

lemma isDigit_iff: "isDigit c \<longleftrightarrow> c \<in> set ''0123456789''"
  by (auto simp: isDigit_def isDigitOf_def digitTable_def split: option.splits if_splits)

lemma showNat_digits: "list_all isDigit (showNat n)"
proof (induction n rule: showNat.induct)
  case (1 n)
  then show ?case
    by (subst showNat.simps) (simp add: isDigit_digitChar)
qed

lemma showNat_not_Nil: "showNat n \<noteq> []"
  by (subst showNat.simps) simp

lemma digitsVal_snoc: "digitsVal r (ds @ [c]) = r * digitsVal r ds + digitVal c"
  by (simp add: digitsVal_def)

lemma digitsVal_showNat: "digitsVal 10 (showNat n) = n"
proof (induction n rule: showNat.induct)
  case (1 n)
  show ?case
  proof (cases "n < 10")
    case True
    then show ?thesis
      by (subst showNat.simps) (simp add: digitsVal_def digitVal_digitChar)
  next
    case False
    with 1 have "digitsVal 10 (showNat (n div 10)) = n div 10" by simp
    with False show ?thesis
      by (subst showNat.simps) (simp add: digitsVal_snoc digitVal_digitChar)
  qed
qed

lemma takeWhile_all: "list_all P xs \<Longrightarrow> takeWhile P xs = xs"
  by (induction xs) auto

lemma dropWhile_all: "list_all P xs \<Longrightarrow> dropWhile P xs = []"
  by (induction xs) auto

lemma parseUnsigned_digits:
  assumes "ds \<noteq> []" and "list_all isDigit ds"
  shows "parseUnsigned ds = Finite (of_nat (digitsVal 10 ds))"
proof -
  have "hd ds \<in> set ds" using assms(1) by simp
  then have "isDigit (hd ds)" using assms(2) by (simp add: list_all_iff)
  then have "hd ds \<noteq> CHR ''I''" by (auto simp: isDigit_iff)
  then have "ds \<noteq> ''Infinity''" by auto
  then show ?thesis
    using assms
    by (simp add: parseUnsigned_def takeWhile_all dropWhile_all parseExponent_def scale10_def
        digitsVal_def)
qed

lemma isDigit_not_space: "isDigit c \<Longrightarrow> \<not> isWhiteSpace c"
  by (auto simp: isDigit_iff isWhiteSpace_def)

lemma dropWhile_hd: "xs \<noteq> [] \<Longrightarrow> \<not> P (hd xs) \<Longrightarrow> dropWhile P xs = xs"
  by (cases xs) simp_all

lemma trim_id:
  assumes "s \<noteq> []" and "\<not> isWhiteSpace (hd s)" and "\<not> isWhiteSpace (last s)"
  shows "trim s = s"
proof -
  have a: "dropWhile isWhiteSpace s = s"
    using assms(1,2) by (rule dropWhile_hd)
  have "rev s \<noteq> []" and "\<not> isWhiteSpace (hd (rev s))"
    using assms(1,3) by (simp_all add: hd_rev)
  then have "dropWhile isWhiteSpace (rev s) = rev s"
    by (rule dropWhile_hd)
  with a show ?thesis by (simp add: trim_def)
qed

lemma isDigit_not_special: "isDigit c \<Longrightarrow> c \<notin> set ''xXoObB+-I''"
  by (auto simp: isDigit_iff)

lemma take2_digits:
  assumes "list_all isDigit ds"
  shows "take 2 (a # ds) \<notin> {''0x'', ''0X'', ''0o'', ''0O'', ''0b'', ''0B''}"
proof (cases ds)
  case Nil
  then show ?thesis by simp
next
  case (Cons b r)
  with assms have "isDigit b" by simp
  from isDigit_not_special [OF this] show ?thesis by (simp add: Cons)
qed

lemma stringToNumber_plain:
  assumes "t \<noteq> []" and "\<not> isWhiteSpace (hd t)" and "\<not> isWhiteSpace (last t)"
    and "take 2 t \<notin> {''0x'', ''0X'', ''0o'', ''0O'', ''0b'', ''0B''}"
  shows "stringToNumber t =
     (if hd t = CHR ''+'' then parseUnsigned (tl t)
      else if hd t = CHR ''-'' then negate (parseUnsigned (tl t))
      else parseUnsigned t)"
proof -
  have "trim t = t" using assms(1-3) by (rule trim_id)
  then show ?thesis using assms(1,4) by (simp add: stringToNumber_def)
qed

lemma stringToNumber_digits:
  assumes "ds \<noteq> []" and "list_all isDigit ds"
  shows "stringToNumber ds = Finite (of_nat (digitsVal 10 ds))"
    and "stringToNumber (CHR ''-'' # ds) = Finite (- of_nat (digitsVal 10 ds))"
proof -
  have hd: "isDigit (hd ds)" and lst: "isDigit (last ds)"
    using assms by (simp_all add: list_all_iff)
  obtain a r where ds: "ds = a # r" using assms(1) by (cases ds) auto
  have t2: "take 2 ds \<notin> {''0x'', ''0X'', ''0o'', ''0O'', ''0b'', ''0B''}"
    unfolding ds using assms(2) by (intro take2_digits) (simp add: ds)
  have sgn: "hd ds \<noteq> CHR ''+''" "hd ds \<noteq> CHR ''-''"
    using isDigit_not_special [OF hd] by simp_all
  have "stringToNumber ds = parseUnsigned ds"
    using stringToNumber_plain [OF assms(1) isDigit_not_space [OF hd] isDigit_not_space [OF lst] t2]
      sgn by simp
  then show "stringToNumber ds = Finite (of_nat (digitsVal 10 ds))"
    using assms by (simp add: parseUnsigned_digits)
  have ws: "\<not> isWhiteSpace (CHR ''-'')" by (simp add: isWhiteSpace_def)
  have "stringToNumber (CHR ''-'' # ds) = negate (parseUnsigned ds)"
    using stringToNumber_plain [of "CHR ''-'' # ds"] take2_digits [OF assms(2), of "CHR ''-''"]
      assms(1) isDigit_not_space [OF lst] ws
    by simp
  then show "stringToNumber (CHR ''-'' # ds) = Finite (- of_nat (digitsVal 10 ds))"
    using assms by (simp add: parseUnsigned_digits negate_def)
qed

lemma stringToNumber_numberToString:
  "stringToNumber (numberToString n) = Finite (of_int n)"
proof (cases "n < 0")
  case True
  then have "of_nat (nat (- n)) = - (of_int n :: rat)"
    by (metis of_int_minus of_int_of_nat_eq nat_0_le neg_0_le_iff_le less_imp_le)
  with True show ?thesis
    by (simp add: numberToString_def stringToNumber_digits(2) showNat_not_Nil showNat_digits
        digitsVal_showNat)
next
  case False
  then show ?thesis
    by (simp add: numberToString_def stringToNumber_digits(1) showNat_not_Nil showNat_digits
        digitsVal_showNat)
qed

lemma numberToString_chars: "c \<in> set (numberToString n) \<Longrightarrow> isDigit c \<or> c = CHR ''-''"
  using showNat_digits [of "nat n"] showNat_digits [of "nat (- n)"]
  by (auto simp: numberToString_def list_all_iff split: if_splits)

lemma numberToString_no_delimiter:
  "CHR '':'' \<notin> set (numberToString n)" "CHR '','' \<notin> set (numberToString n)"
  "CHR '';'' \<notin> set (numberToString n)"
  using numberToString_chars [of _ n] by (auto simp: isDigit_iff)

lemma numberToString_not_Nil: "numberToString n \<noteq> []"
  by (simp add: numberToString_def showNat_not_Nil)

lemma joinWith_Nil_iff: "joinWith c ps = [] \<longleftrightarrow> ps = [] \<or> ps = [[]]"
  by (induction c ps rule: joinWith.induct) simp_all

lemma element_simps:
  "element (a # as) 0 = Some a" "element [] i = None"
  "element (a # as) (Suc i) = element as i"
  by (simp_all add: element_def)

lemma deserializeItem_Nil: "deserializeItem now i [] = None"
  by (simp add: deserializeItem_def element_simps)

lemma filterBoolean_simps:
  "filterBoolean [] = []" "filterBoolean (None # vs) = filterBoolean vs"
  "filterBoolean (Some v # vs) = v # filterBoolean vs"
  by (simp_all add: filterBoolean_def List.map_filter_simps)

lemma filterBoolean_map_Some: "filterBoolean (map (\<lambda>p. Some (g p)) ps) = map g ps"
  by (induction ps) (simp_all add: filterBoolean_simps)

lemma deserializeSprites_prefixed:
  "deserializeSprites now (''#v1|'' @ dataStr) =
     (if dataStr = [] then []
      else filterBoolean (map (\<lambda>(item, index). deserializeItem now index item)
             (zip (splitOn (CHR '';'') dataStr) [0..<length (splitOn (CHR '';'') dataStr)])))"
  by (simp add: deserializeSprites_def startsWith_def Let_def)

lemma deserializeSprites_only_prefix: "deserializeSprites now ''#v1|'' = []"
  using deserializeSprites_prefixed [of now "[]"] by simp

lemma deserializeSprites_records:
  assumes "\<forall>r \<in> set recs. CHR '';'' \<notin> set r"
  shows "deserializeSprites now (''#v1|'' @ joinWith (CHR '';'') recs) =
     filterBoolean (map (\<lambda>(item, index). deserializeItem now index item)
       (zip recs [0..<length recs]))"
proof (cases "joinWith (CHR '';'') recs = []")
  case True
  then have "recs = [] \<or> recs = [[]]" by (simp add: joinWith_Nil_iff)
  then show ?thesis
    using True
    by (auto simp: deserializeSprites_only_prefix filterBoolean_simps deserializeItem_Nil)
next
  case False
  then have "recs \<noteq> []" by (auto simp: joinWith_Nil_iff)
  with assms have "splitOn (CHR '';'') (joinWith (CHR '';'') recs) = recs"
    by (simp add: splitOn_joinWith)
  with False show ?thesis
    using deserializeSprites_prefixed [of now "joinWith (CHR '';'') recs"] by simp
qed

lemma deserializeSprites_no_prefix:
  "\<not> startsWith hash ''#v1|'' \<Longrightarrow> deserializeSprites now hash = []"
proof (cases hash)
  case Nil
  then show ?thesis by (simp add: deserializeSprites_def)
next
  case (Cons a s)
  assume "\<not> startsWith hash ''#v1|''"
  with Cons show ?thesis
    by (auto simp: deserializeSprites_def startsWith_def Let_def)
qed

lemma splitOn_two:
  "c \<notin> set a \<Longrightarrow> c \<notin> set b \<Longrightarrow> splitOn c (a @ c # b) = [a, b]"
  by (simp add: splitOn_append_sep splitOn_no_sep)

lemma splitOn_four:
  assumes "c \<notin> set f1" "c \<notin> set f2" "c \<notin> set f3" "c \<notin> set f4"
  shows "splitOn c (f1 @ c # f2 @ c # f3 @ c # f4) = [f1, f2, f3, f4]"
  using assms by (simp add: splitOn_append_sep splitOn_no_sep)

lemma numberAt_simps:
  "numberAt [a, b, c, d] 0 = a" "numberAt [a, b, c, d] 1 = b" "numberAt [a, b, c, d] (Suc 0) = b"
  "numberAt [a, b, c, d] 2 = c" "numberAt [a, b, c, d] 3 = d"
  by (simp_all add: numberAt_def element_def)

lemma deserializeItem_record:
  assumes "n \<noteq> []" and "CHR '':'' \<notin> set n"
    and "CHR '':'' \<notin> set (f1 @ f2 @ f3 @ f4)" and "CHR '','' \<notin> set (f1 @ f2 @ f3 @ f4)"
    and "stringToNumber f1 \<noteq> NaN" and "stringToNumber f2 \<noteq> NaN"
    and "stringToNumber f3 \<noteq> NaN" and "stringToNumber f4 \<noteq> NaN"
  shows "deserializeItem now i (n @ '':'' @ f1 @ '','' @ f2 @ '','' @ f3 @ '','' @ f4) =
     Some \<lparr>ident = of_int (now i) + of_nat i, name = n,
           w = stringToNumber f3, h = stringToNumber f4,
           x = stringToNumber f1, y = stringToNumber f2\<rparr>"
proof -
  let ?coords = "f1 @ CHR '','' # f2 @ CHR '','' # f3 @ CHR '','' # f4"
  have "CHR '':'' \<notin> set ?coords" using assms(3) by simp
  with assms(2) have parts: "splitOn (CHR '':'') (n @ CHR '':'' # ?coords) = [n, ?coords]"
    by (rule splitOn_two)
  have fields: "splitOn (CHR '','') ?coords = [f1, f2, f3, f4]"
    using assms(4) by (intro splitOn_four) simp_all
  have el: "element [n, ?coords] 0 = Some n" "element [n, ?coords] 1 = Some ?coords"
    by (simp_all add: element_def)
  have "deserializeItem now i (n @ CHR '':'' # ?coords) =
     Some \<lparr>ident = of_int (now i) + of_nat i, name = n,
           w = stringToNumber f3, h = stringToNumber f4,
           x = stringToNumber f1, y = stringToNumber f2\<rparr>"
    unfolding deserializeItem_def parts Let_def el
    using assms(1,5-8) by (simp add: fields numberAt_simps isNaN_def)
  then show ?thesis by simp
qed

lemmas number_defs =
  stringToNumber_def trim_def isWhiteSpace_def parseUnsigned_def parseDigits_def isDigit_def
  isDigitOf_def digitTable_def parseExponent_def scale10_def digitsVal_def digitVal_def
  negate_def

lemma stringToNumber_examples:
  "stringToNumber ''0'' = Finite 0" "stringToNumber ''1'' = Finite 1"
  "stringToNumber ''2'' = Finite 2" "stringToNumber ''3'' = Finite 3"
  "stringToNumber ''4'' = Finite 4"
  "stringToNumber ''10'' = Finite 10" "stringToNumber ''x'' = NaN"
  "stringToNumber ''-5'' = Finite (- 5)" "stringToNumber ''1.5'' = Finite (3 / 2)"
  by (simp_all add: number_defs)

lemma deserializeItem_examples:
  "deserializeItem now i ''a:1,2,3,x'' = None"
  "deserializeItem now i ''b:0,0,10,10'' =
     Some \<lparr>ident = of_int (now i) + of_nat i, name = ''b'', w = Finite 10, h = Finite 10,
           x = Finite 0, y = Finite 0\<rparr>"
  "deserializeItem now i ''a:-5,0,1.5,0'' =
     Some \<lparr>ident = of_int (now i) + of_nat i, name = ''a'', w = Finite (3 / 2), h = Finite 0,
           x = Finite (- 5), y = Finite 0\<rparr>"
  by (simp_all add: deserializeItem_def element_def numberAt_def isNaN_def Let_def
      stringToNumber_examples)

lemma decode_example:
  "deserializeSprites now ''#v1|a:1,2,3,x;b:0,0,10,10'' =
     [\<lparr>ident = of_int (now 1) + 1, name = ''b'', w = Finite 10, h = Finite 10,
       x = Finite 0, y = Finite 0\<rparr>]"
  using deserializeSprites_records [of "[''a:1,2,3,x'', ''b:0,0,10,10'']" now]
  by (simp add: deserializeItem_examples filterBoolean_simps)

section \<open>Properties of the URL codec\<close>

lemma showNat_examples:
  "showNat 0 = ''0''" "showNat 32 = ''32''" "showNat 34 = ''34''"
  by (simp_all add: showNat.simps digitChar_def)

lemma serialize_examples:
  "serializeSprites [iconA, iconB] = ''v1|icon-a:0,0,32,32;icon-b:34,0,32,32''"
  "serializeSprites [unnamed] = ''v1|:0,0,32,32''"
  by (simp_all add: serializeSprites_def serializeSprite_def cleanName_def reserved_def
      numberToString_def showNat_examples iconA_def iconB_def unnamed_def)

lemma cleanName_id: "\<not> list_ex reserved n \<Longrightarrow> cleanName n = n"
  by (induction n) (simp_all add: cleanName_def)

lemma reserved_chars:
  "\<not> list_ex reserved n \<Longrightarrow> CHR '':'' \<notin> set n \<and> CHR '';'' \<notin> set n \<and> CHR '','' \<notin> set n"
  by (auto simp: list_ex_iff reserved_def)

lemma deserializeItem_serializeSprite:
  assumes "name s \<noteq> []" and "\<not> list_ex reserved (name s)"
  shows "deserializeItem now i (serializeSprite s) =
     Some \<lparr>ident = of_int (now i) + of_nat i, name = name s,
           w = Finite (of_int (w s)), h = Finite (of_int (h s)),
           x = Finite (of_int (x s)), y = Finite (of_int (y s))\<rparr>"
proof -
  have "deserializeItem now i
      (name s @ '':'' @ numberToString (x s) @ '','' @ numberToString (y s) @ '','' @
       numberToString (w s) @ '','' @ numberToString (h s)) =
     Some \<lparr>ident = of_int (now i) + of_nat i, name = name s,
           w = stringToNumber (numberToString (w s)), h = stringToNumber (numberToString (h s)),
           x = stringToNumber (numberToString (x s)), y = stringToNumber (numberToString (y s))\<rparr>"
    using assms reserved_chars [OF assms(2)]
    by (intro deserializeItem_record)
       (simp_all add: numberToString_no_delimiter stringToNumber_numberToString)
  then show ?thesis
    by (simp add: serializeSprite_def cleanName_id [OF assms(2)] stringToNumber_numberToString)
qed

lemma serializeSprite_no_semicolon:
  "\<not> list_ex reserved (name s) \<Longrightarrow> CHR '';'' \<notin> set (serializeSprite s)"
  using reserved_chars [of "name s"]
  by (simp add: serializeSprite_def cleanName_id numberToString_no_delimiter)

lemma coordinates_decoded:
  assumes "list_all (\<lambda>s. name s \<noteq> [] \<and> \<not> list_ex reserved (name s)) rs"
  shows "map coordinates
      (filterBoolean (map (\<lambda>(item, index). deserializeItem now index item)
         (zip (map serializeSprite rs) [k..<k + length rs]))) = map asNumbers rs"
  using assms
proof (induction rs arbitrary: k)
  case Nil
  then show ?case by (simp add: filterBoolean_simps)
next
  case (Cons s rs)
  have "[k..<k + length (s # rs)] = k # [Suc k..<Suc k + length rs]"
    by (simp add: upt_rec)
  with Cons.prems Cons.IH [of "Suc k"] show ?case
    by (simp add: deserializeItem_serializeSprite filterBoolean_simps coordinates_def
        asNumbers_def)
qed

text \<open>
  Claim C2, as amended. For every list of rectangles whose names are not empty and
  contain none of the reserved characters, decoding the character \<^verbatim>\<open>#\<close> followed by
  the encoding of the list (the form in which \<^verbatim>\<open>window.location.hash\<close> gives the
  fragment back) yields the same \<^verbatim>\<open>(name, x, y, w, h)\<close> tuples in the same order. The
  identifiers are new.
\<close>

theorem decode_encode_round_trip:
  assumes "safeNames rs"
  shows "map coordinates (deserializeSprites now (CHR ''#'' # serializeSprites rs)) =
         map asNumbers rs"
proof (cases "rs = []")
  case True
  then show ?thesis
    by (simp add: serializeSprites_def deserializeSprites_def startsWith_def)
next
  case False
  have all: "list_all (\<lambda>s. name s \<noteq> [] \<and> \<not> list_ex reserved (name s)) rs"
    using assms by (simp add: safeNames_def)
  then have "\<forall>r \<in> set (map serializeSprite rs). CHR '';'' \<notin> set r"
    by (auto simp: list_all_iff serializeSprite_no_semicolon)
  from deserializeSprites_records [OF this, of now] False
  have "deserializeSprites now (CHR ''#'' # serializeSprites rs) =
      filterBoolean (map (\<lambda>(item, index). deserializeItem now index item)
         (zip (map serializeSprite rs) [0..<0 + length rs]))"
    by (simp add: serializeSprites_def)
  then show ?thesis by (simp only: coordinates_decoded [OF all])
qed

text \<open>Claim C2, as amended, at the two rectangles of the specification's example.\<close>

theorem decode_encode_round_trip_witness:
  "safeNames [iconA, iconB] \<and>
   serializeSprites [iconA, iconB] = ''v1|icon-a:0,0,32,32;icon-b:34,0,32,32'' \<and>
   map coordinates (deserializeSprites clock0 ''#v1|icon-a:0,0,32,32;icon-b:34,0,32,32'') =
     [(''icon-a'', Finite 0, Finite 0, Finite 32, Finite 32),
      (''icon-b'', Finite 34, Finite 0, Finite 32, Finite 32)]"
proof -
  have sn: "safeNames [iconA, iconB]"
    by (simp add: safeNames_def iconA_def iconB_def reserved_def)
  from decode_encode_round_trip [OF sn, of clock0] sn show ?thesis
    by (simp add: serialize_examples) (simp add: asNumbers_def iconA_def iconB_def)
qed

text \<open>
  Claim C2 as stated fails twice. The decoder returns nothing for the encoder's output
  itself, which does not start with \<^verbatim>\<open>#\<close>; and a rectangle with the empty name, which
  contains no reserved character, is dropped by the decoder even after the \<^verbatim>\<open>#\<close>.
\<close>

theorem decode_encode_counterexample:
  "reservedFree [iconA, iconB] \<and>
   map coordinates (deserializeSprites clock0 (serializeSprites [iconA, iconB])) = [] \<and>
   map asNumbers [iconA, iconB] \<noteq> [] \<and>
   reservedFree [unnamed] \<and>
   map coordinates (deserializeSprites clock0 (CHR ''#'' # serializeSprites [unnamed])) = [] \<and>
   map asNumbers [unnamed] \<noteq> []"
proof -
  have a: "deserializeSprites clock0 ''v1|icon-a:0,0,32,32;icon-b:34,0,32,32'' = []"
    by (rule deserializeSprites_no_prefix) (simp add: startsWith_def)
  have "deserializeItem clock0 0 '':0,0,32,32'' = None"
    by (simp add: deserializeItem_def element_def)
  then have b: "deserializeSprites clock0 ''#v1|:0,0,32,32'' = []"
    using deserializeSprites_records [of "['':0,0,32,32'']" clock0]
    by (simp add: filterBoolean_simps)
  have "reservedFree [iconA, iconB]" "reservedFree [unnamed]"
    by (simp_all add: reservedFree_def iconA_def iconB_def unnamed_def reserved_def)
  with a b show ?thesis by (simp add: serialize_examples)
qed

lemma element_hd: "element (splitOn c s) 0 = Some (hd (splitOn c s))"
  using splitOn_not_Nil [of c s] by (cases "splitOn c s") (simp_all add: element_def)

lemma numberAt_take:
  "(isNaN (numberAt (map f fs) 0) \<or> isNaN (numberAt (map f fs) 1) \<or>
    isNaN (numberAt (map f fs) 2) \<or> isNaN (numberAt (map f fs) 3)) \<longleftrightarrow>
   (length fs < 4 \<or> list_ex (\<lambda>v. f v = NaN) (take 4 fs))"
proof (cases fs)
  case Nil
  then show ?thesis by (simp add: numberAt_def element_def isNaN_def)
next
  case fs1: (Cons a r1)
  show ?thesis
  proof (cases r1)
    case Nil
    with fs1 show ?thesis by (simp add: numberAt_def element_def isNaN_def)
  next
    case fs2: (Cons b r2)
    show ?thesis
    proof (cases r2)
      case Nil
      with fs1 fs2 show ?thesis by (simp add: numberAt_def element_def isNaN_def)
    next
      case fs3: (Cons c r3)
      show ?thesis
      proof (cases r3)
        case Nil
        with fs1 fs2 fs3 show ?thesis by (simp add: numberAt_def element_def isNaN_def)
      next
        case (Cons d r4)
        with fs1 fs2 fs3 show ?thesis
          by (simp add: numberAt_def element_def isNaN_def)
      qed
    qed
  qed
qed

lemma deserializeItem_None_iff: "deserializeItem now i item = None \<longleftrightarrow> malformed item"
proof -
  let ?parts = "splitOn (CHR '':'') item"
  show ?thesis
  proof (cases "length ?parts < 2")
    case True
    then show ?thesis
      by (simp add: deserializeItem_def malformed_def Let_def element_def)
  next
    case False
    then have el: "element ?parts 1 = Some (?parts ! 1)" by (simp add: element_def)
    show ?thesis
      unfolding deserializeItem_def malformed_def Let_def el element_hd
      using False numberAt_take [of stringToNumber "splitOn (CHR '','') (?parts ! 1)"]
      by auto
  qed
qed

lemma set_filterBoolean: "set (filterBoolean vs) = {v. Some v \<in> set vs}"
proof (induction vs)
  case Nil
  then show ?case by (simp add: filterBoolean_simps)
next
  case (Cons a vs)
  then show ?case by (cases a) (auto simp: filterBoolean_simps)
qed

text \<open>
  Claim C3, as amended. The decoder takes the hash with its leading \<^verbatim>\<open>#\<close>. A string
  that does not start with \<^verbatim>\<open>#v1|\<close> decodes to the empty list. After \<^verbatim>\<open>#v1|\<close>, every
  record between semicolons is decoded on its own: the result consists of the
  rectangles of the records that decode, in order, and a record fails to decode exactly
  when it is malformed. In particular \<^verbatim>\<open>#v1|a:1,2,3,x;b:0,0,10,10\<close> decodes to exactly
  the rectangle \<^verbatim>\<open>b\<close>.
\<close>

theorem decode_is_tolerant:
  "(\<not> startsWith hash ''#v1|'' \<longrightarrow> deserializeSprites now hash = []) \<and>
   (list_all (\<lambda>r. CHR '';'' \<notin> set r) recs \<longrightarrow>
      deserializeSprites now (''#v1|'' @ joinWith (CHR '';'') recs) =
        filterBoolean (map (\<lambda>(item, index). deserializeItem now index item)
          (zip recs [0..<length recs]))) \<and>
   (deserializeItem now i item = None \<longleftrightarrow> malformed item) \<and>
   deserializeSprites now ''#v1|a:1,2,3,x;b:0,0,10,10'' =
     [\<lparr>ident = of_int (now 1) + 1, name = ''b'', w = Finite 10, h = Finite 10,
       x = Finite 0, y = Finite 0\<rparr>]"
proof -
  have "list_all (\<lambda>r. CHR '';'' \<notin> set r) recs \<longrightarrow>
      deserializeSprites now (''#v1|'' @ joinWith (CHR '';'') recs) =
        filterBoolean (map (\<lambda>(item, index). deserializeItem now index item)
          (zip recs [0..<length recs]))"
    using deserializeSprites_records [of recs now] by (simp add: list_all_iff)
  then show ?thesis
    using deserializeSprites_no_prefix [of hash now] deserializeItem_None_iff [of now i item]
      decode_example [of now]
    by blast
qed

text \<open>Claim C3, as amended, at a string without the prefix and at the example.\<close>

theorem decode_is_tolerant_witness:
  "\<not> startsWith ''icon-a:0,0,32,32'' ''#v1|'' \<and>
   deserializeSprites clock0 ''icon-a:0,0,32,32'' = [] \<and>
   list_all (\<lambda>r. CHR '';'' \<notin> set r) [''a:1,2,3,x'', ''b:0,0,10,10''] \<and>
   joinWith (CHR '';'') [''a:1,2,3,x'', ''b:0,0,10,10''] = ''a:1,2,3,x;b:0,0,10,10'' \<and>
   malformed ''a:1,2,3,x'' \<and> \<not> malformed ''b:0,0,10,10'' \<and>
   deserializeSprites clock0 ''#v1|a:1,2,3,x;b:0,0,10,10'' =
     [\<lparr>ident = 1700000000001, name = ''b'', w = Finite 10, h = Finite 10,
       x = Finite 0, y = Finite 0\<rparr>]"
proof -
  have np: "\<not> startsWith ''icon-a:0,0,32,32'' ''#v1|''" by (simp add: startsWith_def)
  have ns: "list_all (\<lambda>r. CHR '';'' \<notin> set r) [''a:1,2,3,x'', ''b:0,0,10,10'']" by simp
  have m1: "malformed ''a:1,2,3,x''" and m2: "\<not> malformed ''b:0,0,10,10''"
    using decode_is_tolerant [of "''icon-a:0,0,32,32''" clock0 "[]" 0 "''a:1,2,3,x''"]
      decode_is_tolerant [of "''icon-a:0,0,32,32''" clock0 "[]" 1 "''b:0,0,10,10''"]
    by (simp_all add: deserializeItem_examples)
  have a: "deserializeSprites clock0 ''icon-a:0,0,32,32'' = []"
    using decode_is_tolerant [of "''icon-a:0,0,32,32''" clock0 "[]" 0 "''a:1,2,3,x''"] np
    by blast
  have b: "deserializeSprites clock0 ''#v1|a:1,2,3,x;b:0,0,10,10'' =
     [\<lparr>ident = of_int (clock0 1) + 1, name = ''b'', w = Finite 10, h = Finite 10,
       x = Finite 0, y = Finite 0\<rparr>]"
    using decode_is_tolerant [of "''icon-a:0,0,32,32''" clock0 "[]" 0 "''a:1,2,3,x''"]
    by blast
  show ?thesis
    using np a m1 m2 by (simp add: b) (simp add: clock0_def)
qed

text \<open>
  Claim C3 as stated fails at its own example: without the leading \<^verbatim>\<open>#\<close> the string
  \<^verbatim>\<open>v1|a:1,2,3,x;b:0,0,10,10\<close> decodes to the empty list, not to the rectangle \<^verbatim>\<open>b\<close>.
\<close>

theorem decode_example_counterexample:
  "deserializeSprites clock0 ''v1|a:1,2,3,x;b:0,0,10,10'' = []"
  by (rule deserializeSprites_no_prefix) (simp add: startsWith_def)

text \<open>
  Claim C10, as amended. In a hash with the prefix \<^verbatim>\<open>#v1|\<close>, every record with a
  non-empty name and four coordinate fields that \<^verbatim>\<open>Number\<close> reads as numbers yields a
  rectangle carrying exactly those four numbers: no range and no integrality is
  checked. A record with an empty name is dropped whatever its coordinates are.
\<close>

theorem decode_does_not_validate:
  assumes "list_all (\<lambda>r. CHR '';'' \<notin> set r) recs" and "i < length recs"
    and "recs ! i = n @ '':'' @ f1 @ '','' @ f2 @ '','' @ f3 @ '','' @ f4"
    and "n \<noteq> []" and "CHR '':'' \<notin> set n"
    and "CHR '':'' \<notin> set (f1 @ f2 @ f3 @ f4)" and "CHR '','' \<notin> set (f1 @ f2 @ f3 @ f4)"
    and "\<not> isNaN (stringToNumber f1)" and "\<not> isNaN (stringToNumber f2)"
    and "\<not> isNaN (stringToNumber f3)" and "\<not> isNaN (stringToNumber f4)"
  shows "\<lparr>ident = of_int (now i) + of_nat i, name = n,
          w = stringToNumber f3, h = stringToNumber f4,
          x = stringToNumber f1, y = stringToNumber f2\<rparr>
         \<in> set (deserializeSprites now (''#v1|'' @ joinWith (CHR '';'') recs))"
proof -
  let ?r = "\<lparr>ident = of_int (now i) + of_nat i, name = n,
          w = stringToNumber f3, h = stringToNumber f4,
          x = stringToNumber f1, y = stringToNumber f2\<rparr>"
  have dec: "deserializeItem now i (recs ! i) = Some ?r"
    unfolding assms(3) using assms(4-11)
    by (intro deserializeItem_record) (simp_all add: isNaN_def)
  have "(recs ! i, i) \<in> set (zip recs [0..<length recs])"
    using assms(2) by (auto simp: set_zip)
  then have "Some ?r \<in> set (map (\<lambda>(item, index). deserializeItem now index item)
      (zip recs [0..<length recs]))"
    using dec by force
  then have "?r \<in> set (filterBoolean (map (\<lambda>(item, index). deserializeItem now index item)
      (zip recs [0..<length recs])))"
    by (simp only: set_filterBoolean mem_Collect_eq)
  moreover have "\<forall>r \<in> set recs. CHR '';'' \<notin> set r"
    using assms(1) by (simp add: list_all_iff)
  ultimately show ?thesis by (simp only: deserializeSprites_records)
qed

text \<open>
  Claim C10, as amended, at the record \<^verbatim>\<open>a:-5,0,1.5,0\<close>: the decoded rectangle has a negative
  \<open>x\<close>, a fractional width and a zero height, and so violates the documented
  invariant of a rectangle.
\<close>

theorem decode_does_not_validate_witness:
  "list_all (\<lambda>r. CHR '';'' \<notin> set r) [''a:-5,0,1.5,0''] \<and> (0::nat) < length [''a:-5,0,1.5,0''] \<and>
   [''a:-5,0,1.5,0''] ! 0 = ''a'' @ '':'' @ ''-5'' @ '','' @ ''0'' @ '','' @ ''1.5'' @ '','' @ ''0'' \<and>
   stringToNumber ''-5'' = Finite (- 5) \<and> stringToNumber ''0'' = Finite 0 \<and>
   stringToNumber ''1.5'' = Finite (3 / 2) \<and>
   \<lparr>ident = 1700000000000, name = ''a'', w = Finite (3 / 2), h = Finite 0,
     x = Finite (- 5), y = Finite 0\<rparr> \<in> set (deserializeSprites clock0 ''#v1|a:-5,0,1.5,0'') \<and>
   \<not> rectangleInvariant \<lparr>ident = 1700000000000, name = ''a'', w = Finite (3 / 2), h = Finite 0,
     x = Finite (- 5), y = Finite 0\<rparr>"
proof -
  have "\<lparr>ident = of_int (clock0 0) + of_nat 0, name = ''a'',
          w = stringToNumber ''1.5'', h = stringToNumber ''0'',
          x = stringToNumber ''-5'', y = stringToNumber ''0''\<rparr>
         \<in> set (deserializeSprites clock0 (''#v1|'' @ joinWith (CHR '';'') [''a:-5,0,1.5,0'']))"
    by (rule decode_does_not_validate [where i = 0])
       (simp_all add: stringToNumber_examples isNaN_def)
  then show ?thesis
    by (simp add: stringToNumber_examples clock0_def rectangleInvariant_def
        isNonNegativeInteger_def)
qed

text \<open>
  Claim C10 as stated fails: the record \<^verbatim>\<open>:1,2,3,4\<close> of the hash \<^verbatim>\<open>#v1|:1,2,3,4\<close> has
  four coordinate fields that are numbers, and the decoder yields no rectangle for it,
  because its name is empty.
\<close>

theorem decode_drops_unnamed_record_counterexample:
  "stringToNumber ''1'' = Finite 1 \<and> stringToNumber ''2'' = Finite 2 \<and>
   stringToNumber ''3'' = Finite 3 \<and> stringToNumber ''4'' = Finite 4 \<and>
   deserializeSprites clock0 ''#v1|:1,2,3,4'' = []"
proof -
  have "deserializeItem clock0 0 '':1,2,3,4'' = None"
    by (simp add: deserializeItem_def element_def)
  then have "deserializeSprites clock0 ''#v1|:1,2,3,4'' = []"
    using deserializeSprites_records [of "['':1,2,3,4'']" clock0]
    by (simp add: filterBoolean_simps)
  then show ?thesis by (simp add: stringToNumber_examples)
qed

section \<open>Properties of the code generator\<close>

lemma generateCode_empty: "sprites st = [] \<Longrightarrow> generateCode codeMode st = Some placeholder"
  by (simp add: generateCode_def)











text \<open>
  Claim C5, as amended. With zero rectangles the result is the same non-empty
  placeholder text in every format, \<^verbatim>\<open>json\<close> included.
\<close>

theorem generateCode_zero_rectangles:
  "sprites st = [] \<longrightarrow> generateCode codeMode st = Some placeholder \<and> placeholder \<noteq> []"
  by (simp add: generateCode_empty placeholder_def)

text \<open>Claim C5, as amended, at the empty session in the three formats.\<close>

theorem generateCode_zero_rectangles_witness:
  "sprites session0 = [] \<and>
   generateCode ''css'' session0 = Some ''/* Paste images to generate Mixins */'' \<and>
   generateCode ''scss'' session0 = Some ''/* Paste images to generate Mixins */'' \<and>
   generateCode ''json'' session0 = Some ''/* Paste images to generate Mixins */''"
proof -
  have e: "sprites session0 = []" by (simp add: session0_def)
  from generateCode_zero_rectangles [of session0 "''css''"]
    generateCode_zero_rectangles [of session0 "''scss''"]
    generateCode_zero_rectangles [of session0 "''json''"] e
  show ?thesis by (simp add: placeholder_def)
qed

text \<open>
  Claim C5 as stated fails for \<^verbatim>\<open>json\<close>: with zero rectangles the result is the
  placeholder comment, not the empty mapping \<^verbatim>\<open>{}\<close> that \<^verbatim>\<open>JSON.stringify\<close> prints
  for an object without properties.
\<close>

theorem generateCode_json_empty_counterexample:
  "sprites session0 = [] \<and>
   generateCode ''json'' session0 = Some ''/* Paste images to generate Mixins */'' \<and>
   jsonStringify (buildMap []) = ''{}'' \<and>
   generateCode ''json'' session0 \<noteq> Some (jsonStringify (buildMap []))"
  by (simp add: generateCode_def session0_def placeholder_def jsonStringify_def buildMap_def
      ownEntries_def)

end
